(* ===== verification/Prelude.thy ===== *)
theory Prelude
  imports Main "HOL-Library.Multiset" "HOL-Library.Word"
begin

text \<open>
  Shared vocabulary of the development: the collections of unfolding rules the
  component theories fill, the error monad on sum types that models a JavaScript
  function which may throw (\<open>Inl\<close> the thrown value), the signed 64-bit range
  of SQLite integers, and generic lemmas on lists and multisets that the component
  proofs use.
\<close>

named_theorems sql_defs "unfolding rules of the SQL statements of app.js"
named_theorems handler_defs "unfolding rules of the route handlers of app.js"

subsection \<open>Computations that may throw\<close>

text \<open>
  A JavaScript expression that may throw is a value of \<open>'e + 'a\<close>; \<open>sbind\<close>
  sequences two of them and propagates the first exception, as the evaluation of
  consecutive statements does.
\<close>

definition sbind :: "'e + 'a \<Rightarrow> ('a \<Rightarrow> 'e + 'b) \<Rightarrow> 'e + 'b" where
  "sbind m f = (case m of Inl e \<Rightarrow> Inl e | Inr a \<Rightarrow> f a)"

lemma sbind_Inl [simp]: "sbind (Inl e) f = Inl e"
  by (simp add: sbind_def)

lemma sbind_Inr [simp]: "sbind (Inr a) f = f a"
  by (simp add: sbind_def)

lemma sbind_eq_Inr_iff: "sbind m f = Inr b \<longleftrightarrow> (\<exists>a. m = Inr a \<and> f a = Inr b)"
  by (cases m) simp_all

text \<open>
  \<open>Array.prototype.map\<close> with a callback that may throw: the callback runs on the
  elements from left to right and the first exception escapes.
\<close>

fun mapM_sum :: "('a \<Rightarrow> 'e + 'b) \<Rightarrow> 'a list \<Rightarrow> 'e + 'b list" where
  "mapM_sum f [] = Inr []"
| "mapM_sum f (x # xs) = sbind (f x) (\<lambda>y. sbind (mapM_sum f xs) (\<lambda>ys. Inr (y # ys)))"

lemma mapM_sum_total [simp]:
  "(\<And>x. x \<in> set xs \<Longrightarrow> f x = Inr (g x)) \<Longrightarrow> mapM_sum f xs = Inr (map g xs)"
  by (induction xs) simp_all

lemma mapM_sum_ok:
  "(\<And>x. x \<in> set xs \<Longrightarrow> \<exists>y. f x = Inr y) \<Longrightarrow> mapM_sum f xs = Inr (map (projr \<circ> f) xs)"
proof (induction xs)
  case Nil
  then show ?case by simp
next
  case (Cons a xs)
  then obtain y where "f a = Inr y" by auto
  with Cons show ?case by simp
qed

lemma mapM_sum_Inl:
  "x \<in> set xs \<Longrightarrow> f x = Inl e \<Longrightarrow> \<exists>e'. mapM_sum f xs = Inl e'"
proof (induction xs)
  case Nil
  then show ?case by simp
next
  case (Cons y ys)
  show ?case
  proof (cases "f y")
    case (Inl a)
    then show ?thesis by simp
  next
    case (Inr b)
    with Cons have "x \<in> set ys" by auto
    with Cons.IH Cons.prems(2) obtain e' where "mapM_sum f ys = Inl e'" by blast
    with Inr show ?thesis by simp
  qed
qed

subsection \<open>SQLite integers\<close>

text \<open>
  SQLite stores an INTEGER as a signed 64-bit value; its \<open>sum()\<close> reports
  "integer overflow" when an intermediate total leaves this range.
\<close>

definition i64_min :: int where
  "i64_min = - (2 ^ 63)"

definition i64_max :: int where
  "i64_max = 2 ^ 63 - 1"

definition in_i64 :: "int \<Rightarrow> bool" where
  "in_i64 x \<longleftrightarrow> i64_min \<le> x \<and> x \<le> i64_max"

text \<open>
  A JavaScript number is bound as an SQLite INTEGER only when it is a 32-bit
  integer (node-sqlite3 compares it with its \<open>Int32Value\<close>).
\<close>

definition in_i32 :: "int \<Rightarrow> bool" where
  "in_i32 x \<longleftrightarrow> - (2 ^ 31) \<le> x \<and> x < 2 ^ 31"

lemma in_i64_small [simp]: "0 \<le> x \<Longrightarrow> x \<le> 1000000 \<Longrightarrow> in_i64 x"
  by (simp add: in_i64_def i64_min_def i64_max_def)

lemma in_i32_small [simp]: "0 \<le> x \<Longrightarrow> x \<le> 1000000 \<Longrightarrow> in_i32 x"
  by (simp add: in_i32_def)

subsection \<open>Lists and multisets\<close>

text \<open>A nested-loop join produces one row per matching pair.\<close>

lemma concat_map_if_single [simp]:
  "concat (map (\<lambda>x. if P x then [f x] else []) xs) = map f (filter P xs)"
  by (induction xs) auto

lemma concat_map_Nil [simp]: "concat (map (\<lambda>x. []) xs) = []"
  by (induction xs) simp_all

lemma mset_concat_map_append:
  "mset (concat (map (\<lambda>y. f y @ g y) ys)) = mset (concat (map f ys)) + mset (concat (map g ys))"
  by (induction ys) (simp_all add: ac_simps)

text \<open>As multisets, the order of the two loops of a nested-loop join does not matter.\<close>

lemma mset_concat_map_swap:
  "mset (concat (map (\<lambda>x. concat (map (\<lambda>y. g x y) ys)) xs)) =
   mset (concat (map (\<lambda>y. concat (map (\<lambda>x. g x y) xs)) ys))"
proof (induction xs)
  case Nil
  then show ?case by (induction ys) simp_all
next
  case (Cons x xs)
  then show ?case by (simp add: mset_concat_map_append)
qed

text \<open>A key column with distinct values: selecting by a key finds one row.\<close>

lemma filter_distinct_key:
  assumes "distinct (map f xs)" "x \<in> set xs" "\<And>y. y \<in> set xs \<Longrightarrow> P y \<longleftrightarrow> f y = f x"
  shows "filter P xs = [x]"
  using assms
proof (induction xs)
  case Nil
  then show ?case by simp
next
  case (Cons y ys)
  show ?case
  proof (cases "y = x")
    case True
    with Cons.prems have "\<forall>z \<in> set ys. \<not> P z"
      by (auto simp: image_iff)
    with True Cons.prems(3) show ?thesis by (simp add: filter_empty_conv)
  next
    case False
    with Cons.prems have "f y \<noteq> f x" by (auto simp: image_iff)
    with False Cons show ?thesis by auto
  qed
qed

lemma map_if_other [simp]:
  "(\<And>x. x \<in> set xs \<Longrightarrow> \<not> P x) \<Longrightarrow> map (\<lambda>x. if P x then f x else x) xs = xs"
  by (induction xs) auto

text \<open>A list with the multiset of two elements is one of their two orders.\<close>

lemma mset_eq_pair: "mset xs = {#a, b#} \<Longrightarrow> xs = [a, b] \<or> xs = [b, a]"
proof -
  assume m: "mset xs = {#a, b#}"
  then have "length xs = 2" by (metis size_mset size_add_mset size_empty numeral_2_eq_2 One_nat_def)
  then obtain x y where xs: "xs = [x, y]"
    by (metis (no_types) One_nat_def Suc_1 length_0_conv length_Suc_conv)
  with m show ?thesis by (auto simp: add_eq_conv_ex)
qed

end
