(* ===== verification/Json.thy ===== *)
theory Json
  imports Prelude
begin

text \<open>
  The JavaScript side of the service: the values the handlers of \<open>src/app.js\<close>
  manipulate (request parameters, request bodies, the row objects the sqlite driver
  returns, the objects the transformers build), property access on them with the
  \<open>TypeError\<close> JavaScript raises on \<open>undefined\<close> and \<open>null\<close>, the JSON
  document \<open>res.send\<close> serialises an object or array to (JSON.stringify drops
  object fields whose value is \<open>undefined\<close>), and the outcome of a handler: a
  response sent, or a rejected promise.
  A number \<open>Num n\<close> is the JavaScript number whose value is the integer
  \<open>n\<close>: the numbers the service reads back are row ids, years, scores and counts,
  which the driver delivers as doubles (\<open>js_double\<close> in Sql), and a number in a
  request body is taken to be an integral double. Fractional numbers are not
  modelled. A string is a list of 8-bit characters, the bytes of its UTF-8 text.
\<close>

datatype jsval =
    Undef
  | Null
  | Bool bool
  | Num int
  | Str string
  | Obj "(string \<times> jsval) list"
  | Arr "jsval list"

datatype js_error =
    TypeError string
  | SqliteError string

text \<open>
  \<open>o.k\<close> (and the destructuring \<open>const {k} = o\<close>): reading a property of
  \<open>undefined\<close> or \<open>null\<close> throws; a missing property of an object is
  \<open>undefined\<close>; the primitives in this program have none of the property names
  the handlers read.
\<close>

definition field :: "(string \<times> jsval) list \<Rightarrow> string \<Rightarrow> jsval" where
  "field fs k = (case map_of fs k of None \<Rightarrow> Undef | Some v \<Rightarrow> v)"

text \<open>The message V8 gives the TypeError: \<open>Cannot read properties of undefined (reading 'k')\<close>.\<close>

definition cannot_read :: "string \<Rightarrow> string \<Rightarrow> string" where
  "cannot_read base k = ''Cannot read properties of '' @ base @ '' (reading '' @ [CHR 0x27] @ k @ [CHR 0x27] @ '')''"

fun js_get :: "jsval \<Rightarrow> string \<Rightarrow> js_error + jsval" where
  "js_get Undef k = Inl (TypeError (cannot_read ''undefined'' k))"
| "js_get Null k = Inl (TypeError (cannot_read ''null'' k))"
| "js_get (Obj fs) k = Inr (field fs k)"
| "js_get _ k = Inr Undef"

lemma field_Cons [simp]: "field ((k', v) # fs) k = (if k = k' then v else field fs k)"
  by (simp add: field_def)

lemma field_Nil [simp]: "field [] k = Undef"
  by (simp add: field_def)

text \<open>\<open>arr.map(f)\<close>: on an array the callback runs element by element.\<close>

fun js_map :: "(jsval \<Rightarrow> js_error + jsval) \<Rightarrow> jsval \<Rightarrow> js_error + jsval" where
  "js_map f (Arr xs) = sbind (mapM_sum f xs) (\<lambda>ys. Inr (Arr ys))"
| "js_map f _ = Inl (TypeError ''map is not a function'')"

subsection \<open>JSON documents\<close>

datatype json =
    JNull
  | JBool bool
  | JNumber int
  | JString string
  | JObject "(string \<times> json) list"
  | JArray "json list"

text \<open>
  JSON.stringify on the values above: \<open>undefined\<close> object fields are left out,
  \<open>undefined\<close> array elements become \<open>null\<close>.
\<close>

fun to_json :: "jsval \<Rightarrow> json" where
  "to_json Undef = JNull"
| "to_json Null = JNull"
| "to_json (Bool b) = JBool b"
| "to_json (Num n) = JNumber n"
| "to_json (Str s) = JString s"
| "to_json (Obj fs) = JObject (map (\<lambda>(k, v). (k, to_json v)) (filter (\<lambda>(k, v). v \<noteq> Undef) fs))"
| "to_json (Arr xs) = JArray (map to_json xs)"

subsection \<open>Responses and handler outcomes\<close>

text \<open>
  \<open>res.send(body)\<close>: a string is sent as text, an object or an array as JSON.
  \<open>RNotFound\<close> is Express's final handler for a request no route matches
  (status 404, body "Cannot METHOD path").
\<close>

datatype response =
    RText string
  | RJson json
  | RNotFound string

datatype outcome =
    Sent response
  | Rejected js_error

fun res_send :: "jsval \<Rightarrow> response" where
  "res_send (Str s) = RText s"
| "res_send v = RJson (to_json v)"

text \<open>\<open>res.send(f(x))\<close> where computing \<open>f(x)\<close> may throw.\<close>

definition send_result :: "js_error + jsval \<Rightarrow> outcome" where
  "send_result r = (case r of Inl e \<Rightarrow> Rejected e | Inr v \<Rightarrow> Sent (res_send v))"

lemma send_result_Inl [simp]: "send_result (Inl e) = Rejected e"
  by (simp add: send_result_def)

lemma send_result_Inr [simp]: "send_result (Inr v) = Sent (res_send v)"
  by (simp add: send_result_def)

end
