(* ===== verification/Sql.thy ===== *)
theory Sql
  imports Json
begin

text \<open>
  The storage layer: the SQLite database \<open>cricketMatchDetails.db\<close> that
  \<open>src/app.js\<close> opens once at start-up, and the seven SQL statements its
  handlers issue through the \<open>sqlite\<close> wrapper (\<open>db.get\<close>, \<open>db.all\<close>,
  \<open>db.run\<close>) over node-sqlite3. The schema is not in the repository; the model
  takes the one the queries read: \<open>player_details(player_id INTEGER, player_name TEXT)\<close>,
  \<open>match_details(match_id INTEGER, match TEXT, year INTEGER)\<close> and
  \<open>player_match_score(player_match_id, player_id, match_id, score, fours, sixes)\<close>,
  all INTEGER but for the two TEXT columns.
  The driver binds the JavaScript arguments of a call to the statement's \<open>?\<close>
  parameters (\<open>bind_args\<close>, node-sqlite3's \<open>Statement::Bind\<close>): an array
  as first argument supplies the parameters by position, a plain object by key,
  and otherwise the arguments themselves are the parameters; a number is bound
  as INTEGER when it is a 32-bit integer and as REAL otherwise. An argument
  beyond the statement's parameters fails with SQLITE_RANGE.
  What SQLite does and the model keeps: a bound parameter is compared with an
  INTEGER column after numeric affinity (the path parameter \<open>'07'\<close> selects id 7);
  a value stored in the TEXT column \<open>player_name\<close> is converted to text;
  \<open>sum()\<close> of no rows is NULL and reports "integer overflow" when a running
  total leaves the signed 64-bit range; an aggregate query without GROUP BY returns
  exactly one row, whose bare columns come from the last joined row, or NULL.
  An INTEGER read back reaches JavaScript as a double (\<open>js_double\<close>), exact up
  to \<open>2^53\<close>.
  Rows come in table order, and joins as nested loops in FROM order; SQLite does
  not promise an order without ORDER BY, so theorems about result lists are stated
  on multisets where the order matters.
\<close>

text \<open>
  SQLite values. \<open>SReal r\<close> is a REAL whose value is the integer \<open>r\<close>: the
  only REAL values the service produces are bound JavaScript numbers, which the
  model takes to be integral.
\<close>

datatype sqlval = SNull | SInt int | SReal int | SText string

record player_row =
  pd_player_id :: int
  pd_player_name :: sqlval

record match_row =
  md_match_id :: int
  md_match :: string
  md_year :: int

record score_row =
  pms_player_match_id :: int
  pms_player_id :: int
  pms_match_id :: int
  pms_score :: int
  pms_fours :: int
  pms_sixes :: int

record database =
  player_details :: "player_row list"
  match_details :: "match_row list"
  player_match_score :: "score_row list"

subsection \<open>Decimal text of numbers\<close>

definition digit_char :: "nat \<Rightarrow> char" where
  "digit_char d = char_of (48 + d)"

fun nat_to_string :: "nat \<Rightarrow> string" where
  "nat_to_string n =
     (if n < 10 then [digit_char n] else nat_to_string (n div 10) @ [digit_char (n mod 10)])"

declare nat_to_string.simps [simp del]

definition int_to_string :: "int \<Rightarrow> string" where
  "int_to_string i = (if i < 0 then CHR ''-'' # nat_to_string (nat (- i)) else nat_to_string (nat i))"

text \<open>
  The text SQLite makes of a REAL (\<open>"%!.15g"\<close> in \<open>vdbeMemRenderNum\<close>), here of
  an integral one: below \<open>10^15\<close> its digits and \<open>.0\<close>; from \<open>10^15\<close> on, 15
  significant digits rounded half up, trailing zeros dropped but one, and the
  exponent, as in \<open>1.0e+15\<close>.
\<close>

definition real_text :: "int \<Rightarrow> string" where
  "real_text r =
     (let a = nat \<bar>r\<bar>; sg = (if r < 0 then ''-'' else ''''); n = length (nat_to_string a)
      in if n \<le> 15 then sg @ nat_to_string a @ ''.0''
         else
           (let sh = n - 15; q = a div 10 ^ sh;
                q' = (if 10 ^ sh \<le> 2 * (a mod 10 ^ sh) then q + 1 else q);
                m = (if q' = 10 ^ 15 then 10 ^ 14 else q');
                e = (if q' = 10 ^ 15 then n else n - 1);
                fr = rev (dropWhile (\<lambda>c. c = CHR ''0'') (rev (tl (nat_to_string m))))
            in sg @ [hd (nat_to_string m)] @ ''.'' @ (if fr = [] then ''0'' else fr) @ ''e+'' @
               nat_to_string e))"

subsection \<open>Integers read back as JavaScript numbers\<close>

text \<open>
  node-sqlite3 hands an INTEGER column to JavaScript as \<open>Napi::Number::New\<close> of
  the 64-bit value: the nearest double, ties to even. \<open>bit_len\<close> is the number
  of binary digits; a double keeps 53 of them.
\<close>

fun bit_len :: "nat \<Rightarrow> nat" where
  "bit_len n = (if n = 0 then 0 else Suc (bit_len (n div 2)))"

declare bit_len.simps [simp del]

definition round_double_nat :: "nat \<Rightarrow> nat" where
  "round_double_nat a =
     (let sh = bit_len a - 53; q = a div 2 ^ sh; r = a mod 2 ^ sh
      in (if 2 ^ sh < 2 * r \<or> (2 ^ sh = 2 * r \<and> odd q) then q + 1 else q) * 2 ^ sh)"

definition js_double :: "int \<Rightarrow> int" where
  "js_double n = sgn n * int (round_double_nat (nat \<bar>n\<bar>))"

subsection \<open>Comparing a parameter with an INTEGER column\<close>

text \<open>
  Numeric affinity of a text operand: surrounding white space is ignored, an
  optional sign, decimal digits and an optional fraction of zeros make an integer
  within the 64-bit range; any other text (exponent forms included, which the model
  leaves out) stays text and equals no integer. A REAL operand compares by value.
\<close>

definition sql_space :: "char \<Rightarrow> bool" where
  "sql_space c \<longleftrightarrow> c = CHR '' '' \<or> ((9::nat) \<le> of_char c \<and> of_char c \<le> (13::nat))"

definition is_digit :: "char \<Rightarrow> bool" where
  "is_digit c \<longleftrightarrow> (48::nat) \<le> of_char c \<and> of_char c \<le> (57::nat)"

definition digits_value :: "string \<Rightarrow> int" where
  "digits_value ds = foldl (\<lambda>acc c. 10 * acc + (int (of_char c) - 48)) 0 ds"

definition trim_space :: "string \<Rightarrow> string" where
  "trim_space s = rev (dropWhile sql_space (rev (dropWhile sql_space s)))"

definition unsigned_literal :: "string \<Rightarrow> int option" where
  "unsigned_literal s =
     (let ds = takeWhile is_digit s; rest = dropWhile is_digit s
      in if ds \<noteq> [] \<and> (rest = [] \<or> (hd rest = CHR ''.'' \<and> (\<forall>c \<in> set (tl rest). c = CHR ''0'')))
         then Some (digits_value ds) else None)"

definition numeric_affinity :: "string \<Rightarrow> int option" where
  "numeric_affinity s =
     (let t = trim_space s;
          r = (if t \<noteq> [] \<and> hd t = CHR ''-'' then map_option uminus (unsigned_literal (tl t))
               else if t \<noteq> [] \<and> hd t = CHR ''+'' then unsigned_literal (tl t)
               else unsigned_literal t)
      in (case r of Some n \<Rightarrow> if in_i64 n then Some n else None | None \<Rightarrow> None))"

fun sql_int_eq :: "int \<Rightarrow> sqlval \<Rightarrow> bool" where
  "sql_int_eq k SNull = False"
| "sql_int_eq k (SInt n) = (k = n)"
| "sql_int_eq k (SReal r) = (k = r)"
| "sql_int_eq k (SText s) = (numeric_affinity s = Some k)"

subsection \<open>Binding JavaScript values to statement parameters\<close>

text \<open>
  \<open>BindParameter\<close> of node-sqlite3 for one value: a string as TEXT, a number
  as INTEGER when it equals its \<open>Int32Value\<close> and as REAL otherwise, a boolean
  as 1 or 0, null as NULL, any other object as the TEXT of its \<open>toString()\<close>.
  \<open>undefined\<close> is not bound at all, and the parameter keeps the NULL that
  \<open>sqlite3_clear_bindings\<close> gave it. \<open>js_to_string\<close> is \<open>String(v)\<close> on the
  values of the model (a number prints as its digits below \<open>10^21\<close>).
\<close>

fun comma_join :: "string list \<Rightarrow> string" where
  "comma_join [] = ''''"
| "comma_join [s] = s"
| "comma_join (s # ss) = s @ '','' @ comma_join ss"

fun js_to_string :: "jsval \<Rightarrow> string" where
  "js_to_string Undef = ''''"
| "js_to_string Null = ''''"
| "js_to_string (Bool b) = (if b then ''true'' else ''false'')"
| "js_to_string (Num n) = int_to_string n"
| "js_to_string (Str s) = s"
| "js_to_string (Obj fs) = ''[object Object]''"
| "js_to_string (Arr xs) = comma_join (map js_to_string xs)"

fun bind_value :: "jsval \<Rightarrow> sqlval" where
  "bind_value Undef = SNull"
| "bind_value Null = SNull"
| "bind_value (Bool b) = SInt (if b then 1 else 0)"
| "bind_value (Num n) = (if in_i32 n then SInt n else SReal n)"
| "bind_value (Str s) = SText s"
| "bind_value (Obj fs) = SText (js_to_string (Obj fs))"
| "bind_value (Arr xs) = SText (js_to_string (Arr xs))"

text \<open>A value that is neither an object nor an array.\<close>

definition scalar :: "jsval \<Rightarrow> bool" where
  "scalar v \<longleftrightarrow> (case v of Obj fs \<Rightarrow> False | Arr xs \<Rightarrow> False | _ \<Rightarrow> True)"

text \<open>
  Binding a value to a position the statement does not have fails: SQLite's
  \<open>sqlite3_bind_*\<close> return SQLITE_RANGE, whose message is this one.
\<close>

definition range_error :: js_error where
  "range_error = SqliteError ''column index out of range''"

text \<open>
  Positional binding of \<open>vs\<close> to a statement with \<open>k\<close> parameters: the i-th
  value goes to position i; an undefined value is skipped; any other value past
  position \<open>k\<close> fails.
\<close>

definition bind_positional :: "nat \<Rightarrow> jsval list \<Rightarrow> js_error + sqlval list" where
  "bind_positional k vs =
     (if list_ex (\<lambda>v. v \<noteq> Undef) (drop k vs) then Inl range_error
      else Inr (map bind_value (take k vs) @ replicate (k - length vs) SNull))"

text \<open>
  Named binding from a plain object. node-sqlite3 reads the property names in
  JavaScript's order (array-index keys ascending, then the other keys in insertion
  order), converts each with \<open>ToNumber\<close> and, when the number equals its
  \<open>Int32Value\<close>, binds to that index cast to \<open>unsigned short\<close>; any other
  key is looked up as a parameter name. The statements of app.js have only
  anonymous \<open>?\<close> parameters, so a name, like the index 0, finds position 0,
  which is out of range. A later key bound to the same position overwrites an
  earlier one. The object's keys are distinct, as in any JavaScript object.
\<close>

definition js_space :: "char \<Rightarrow> bool" where
  "js_space c \<longleftrightarrow> of_char c \<in> {9, 10, 11, 12, 13, 32, 160 :: nat}"

definition js_trim :: "string \<Rightarrow> string" where
  "js_trim s = rev (dropWhile js_space (rev (dropWhile js_space s)))"

definition digit_in :: "nat \<Rightarrow> char \<Rightarrow> nat option" where
  "digit_in b c =
     (let n = (of_char c :: nat);
          d = (if 48 \<le> n \<and> n \<le> 57 then n - 48 else if 97 \<le> n \<and> n \<le> 122 then n - 87
               else if 65 \<le> n \<and> n \<le> 90 then n - 55 else b)
      in if d < b then Some d else None)"

definition radix_value :: "nat \<Rightarrow> string \<Rightarrow> int option" where
  "radix_value b ds =
     (if ds \<noteq> [] \<and> (\<forall>c \<in> set ds. digit_in b c \<noteq> None)
      then Some (int (foldl (\<lambda>acc c. b * acc + the (digit_in b c)) 0 ds)) else None)"

definition signed_digits :: "string \<Rightarrow> int option" where
  "signed_digits t =
     (let u = (if t \<noteq> [] \<and> (hd t = CHR ''-'' \<or> hd t = CHR ''+'') then tl t else t);
          v = radix_value 10 u
      in if t \<noteq> [] \<and> hd t = CHR ''-'' then map_option uminus v else v)"

text \<open>
  The value of an unsigned decimal literal of \<open>ToNumber\<close> (digits, an optional
  fraction, an optional exponent) when that value is an integer; \<open>None\<close> when
  the text is no such literal (so \<open>NaN\<close>, or \<open>Infinity\<close>) or the value is not
  an integer.
\<close>

definition decimal_value :: "string \<Rightarrow> int option" where
  "decimal_value s =
     (let ip = takeWhile is_digit s; r1 = dropWhile is_digit s;
          dot = (r1 \<noteq> [] \<and> hd r1 = CHR ''.'');
          fp = (if dot then takeWhile is_digit (tl r1) else []);
          r2 = (if dot then dropWhile is_digit (tl r1) else r1);
          ex = (if r2 = [] then Some 0
                else if hd r2 = CHR ''e'' \<or> hd r2 = CHR ''E'' then signed_digits (tl r2) else None)
      in if ip = [] \<and> fp = [] then None
         else (case ex of None \<Rightarrow> None
           | Some e \<Rightarrow>
               (let d = digits_value (ip @ fp); x = e - int (length fp)
                in if 0 \<le> x then Some (d * 10 ^ nat x)
                   else if d mod 10 ^ nat (- x) = 0 then Some (d div 10 ^ nat (- x)) else None)))"

definition js_number_int :: "string \<Rightarrow> int option" where
  "js_number_int s =
     (let t = js_trim s
      in if t = [] then Some 0
         else if 2 \<le> length t \<and> hd t = CHR ''0'' \<and> (t ! 1 = CHR ''x'' \<or> t ! 1 = CHR ''X'')
           then radix_value 16 (drop 2 t)
         else if 2 \<le> length t \<and> hd t = CHR ''0'' \<and> (t ! 1 = CHR ''o'' \<or> t ! 1 = CHR ''O'')
           then radix_value 8 (drop 2 t)
         else if 2 \<le> length t \<and> hd t = CHR ''0'' \<and> (t ! 1 = CHR ''b'' \<or> t ! 1 = CHR ''B'')
           then radix_value 2 (drop 2 t)
         else if hd t = CHR ''-'' then map_option uminus (decimal_value (tl t))
         else if hd t = CHR ''+'' then decimal_value (tl t)
         else decimal_value t)"

definition key_position :: "string \<Rightarrow> nat" where
  "key_position name =
     (case js_number_int name of
        Some n \<Rightarrow> if in_i32 n then unat (word_of_int n :: 16 word) else 0
      | None \<Rightarrow> 0)"

definition is_array_index :: "string \<Rightarrow> bool" where
  "is_array_index k \<longleftrightarrow>
     k \<noteq> [] \<and> list_all is_digit k \<and> (k = ''0'' \<or> hd k \<noteq> CHR ''0'') \<and> digits_value k < 2 ^ 32 - 1"

definition own_keys_order :: "(string \<times> jsval) list \<Rightarrow> (string \<times> jsval) list" where
  "own_keys_order fs =
     sort_key (\<lambda>(k, v). digits_value k) (filter (\<lambda>(k, v). is_array_index k) fs) @
     filter (\<lambda>(k, v). \<not> is_array_index k) fs"

definition bind_named :: "nat \<Rightarrow> (string \<times> jsval) list \<Rightarrow> js_error + sqlval list" where
  "bind_named k fs =
     (let ps = map (\<lambda>(name, v). (key_position name, v)) (filter (\<lambda>(name, v). v \<noteq> Undef) (own_keys_order fs))
      in if list_ex (\<lambda>(i, v). i = 0 \<or> k < i) ps then Inl range_error
         else Inr (map (\<lambda>i. case map_of (rev ps) i of None \<Rightarrow> SNull | Some v \<Rightarrow> bind_value v) [1..<Suc k]))"

text \<open>
  \<open>Statement::Bind\<close>: the arguments of a driver call after the SQL text, bound to
  a statement with \<open>k\<close> parameters.
\<close>

fun bind_args :: "nat \<Rightarrow> jsval list \<Rightarrow> js_error + sqlval list" where
  "bind_args k (Arr vs # args) = bind_positional k vs"
| "bind_args k (Obj fs # args) = bind_named k fs"
| "bind_args k args = bind_positional k args"

text \<open>A value stored into the TEXT column \<open>player_name\<close> (TEXT affinity).\<close>

fun text_affinity :: "sqlval \<Rightarrow> sqlval" where
  "text_affinity (SInt n) = SText (int_to_string n)"
| "text_affinity (SReal r) = SText (real_text r)"
| "text_affinity v = v"

subsection \<open>Row objects\<close>

text \<open>The object the driver returns for a row, keyed by result column name.\<close>

fun sql_js :: "sqlval \<Rightarrow> jsval" where
  "sql_js SNull = Null"
| "sql_js (SInt n) = Num (js_double n)"
| "sql_js (SReal r) = Num r"
| "sql_js (SText s) = Str s"

definition player_obj :: "player_row \<Rightarrow> jsval" where
  "player_obj p =
     Obj [(''player_id'', Num (js_double (pd_player_id p))), (''player_name'', sql_js (pd_player_name p))]"

definition match_obj :: "match_row \<Rightarrow> jsval" where
  "match_obj m =
     Obj [(''match_id'', Num (js_double (md_match_id m))), (''match'', Str (md_match m)),
          (''year'', Num (js_double (md_year m)))]"

subsection \<open>The SQL statements of the handlers\<close>

text \<open>
  One constructor per statement text of \<open>app.js\<close>, with the JavaScript arguments
  the handler passes after the SQL text: this is the interface between the route
  handlers and the storage layer, which binds them (\<open>bind_args\<close>).
\<close>

datatype stmt =
    SelectAllPlayers
  | SelectPlayerById "jsval list"
  | UpdatePlayer "jsval list"
  | SelectMatchById "jsval list"
  | SelectPlayerMatches "jsval list"
  | SelectMatchPlayers "jsval list"
  | SelectPlayerStats "jsval list"

text \<open>\<open>SELECT * FROM player_details WHERE player_id = ?\<close> and its kin.\<close>

definition player_key :: "sqlval \<Rightarrow> player_row \<Rightarrow> bool" where
  "player_key v p \<longleftrightarrow> sql_int_eq (pd_player_id p) v"

definition q_all_players :: "database \<Rightarrow> jsval list" where
  [sql_defs]: "q_all_players db = map player_obj (player_details db)"

definition q_player_by_id :: "sqlval \<Rightarrow> database \<Rightarrow> jsval list" where
  [sql_defs]: "q_player_by_id v db = map player_obj (filter (player_key v) (player_details db))"

definition q_match_by_id :: "sqlval \<Rightarrow> database \<Rightarrow> jsval list" where
  [sql_defs]: "q_match_by_id v db =
     map match_obj (filter (\<lambda>m. sql_int_eq (md_match_id m) v) (match_details db))"

text \<open>
  \<open>SELECT match_details.match_id, match, year FROM match_details INNER JOIN
  player_match_score ON match_details.match_id = player_match_score.match_id
  WHERE player_match_score.player_id = ?\<close>
\<close>

definition q_player_matches :: "sqlval \<Rightarrow> database \<Rightarrow> jsval list" where
  [sql_defs]: "q_player_matches v db =
     concat (map (\<lambda>m. concat (map (\<lambda>s.
        if md_match_id m = pms_match_id s \<and> sql_int_eq (pms_player_id s) v
        then [match_obj m] else []) (player_match_score db))) (match_details db))"

text \<open>
  \<open>SELECT player_details.player_id, player_name FROM player_details INNER JOIN
  player_match_score ON player_details.player_id = player_match_score.player_id
  WHERE player_match_score.match_id = ?\<close>
\<close>

definition q_match_players :: "sqlval \<Rightarrow> database \<Rightarrow> jsval list" where
  [sql_defs]: "q_match_players v db =
     concat (map (\<lambda>p. concat (map (\<lambda>s.
        if pd_player_id p = pms_player_id s \<and> sql_int_eq (pms_match_id s) v
        then [player_obj p] else []) (player_match_score db))) (player_details db))"

text \<open>
  \<open>sum()\<close> over the joined rows: 64-bit running total, NULL on no rows.
\<close>

fun sum_from :: "int \<Rightarrow> int list \<Rightarrow> js_error + int" where
  "sum_from acc [] = Inr acc"
| "sum_from acc (x # xs) =
     (if in_i64 (acc + x) then sum_from (acc + x) xs else Inl (SqliteError ''integer overflow''))"

definition sql_sum :: "int list \<Rightarrow> js_error + sqlval" where
  "sql_sum xs = (if xs = [] then Inr SNull else sbind (sum_from 0 xs) (\<lambda>t. Inr (SInt t)))"

text \<open>
  \<open>SELECT player_details.player_id, player_name, SUM(score) AS total_score,
  SUM(fours) AS total_fours, SUM(sixes) AS total_sixes FROM player_match_score
  INNER JOIN player_details ON player_match_score.player_id =
  player_details.player_id WHERE player_details.player_id = ?\<close>
\<close>

definition stats_join :: "sqlval \<Rightarrow> database \<Rightarrow> (score_row \<times> player_row) list" where
  "stats_join v db =
     concat (map (\<lambda>s. concat (map (\<lambda>p.
        if pms_player_id s = pd_player_id p \<and> player_key v p then [(s, p)] else [])
        (player_details db))) (player_match_score db))"

definition bare_columns :: "(score_row \<times> player_row) list \<Rightarrow> jsval \<times> jsval" where
  "bare_columns rows = (case rows of [] \<Rightarrow> (Null, Null)
     | _ \<Rightarrow> (Num (js_double (pd_player_id (snd (last rows)))), sql_js (pd_player_name (snd (last rows)))))"

definition q_player_stats :: "sqlval \<Rightarrow> database \<Rightarrow> js_error + jsval list" where
  [sql_defs]: "q_player_stats v db =
     (let rows = stats_join v db; (pid, pname) = bare_columns rows
      in sbind (sql_sum (map (pms_score \<circ> fst) rows)) (\<lambda>ts.
         sbind (sql_sum (map (pms_fours \<circ> fst) rows)) (\<lambda>tf.
         sbind (sql_sum (map (pms_sixes \<circ> fst) rows)) (\<lambda>tx.
         Inr [Obj [(''player_id'', pid), (''player_name'', pname), (''total_score'', sql_js ts),
                   (''total_fours'', sql_js tf), (''total_sixes'', sql_js tx)]]))))"

text \<open>\<open>UPDATE player_details SET player_name = ? WHERE player_id = ?\<close>\<close>

definition update_player_name :: "sqlval \<Rightarrow> sqlval \<Rightarrow> database \<Rightarrow> database" where
  [sql_defs]: "update_player_name name v db =
     db\<lparr>player_details := map (\<lambda>p. if player_key v p then p\<lparr>pd_player_name := text_affinity name\<rparr> else p)
                             (player_details db)\<rparr>"

definition update_changes :: "sqlval \<Rightarrow> database \<Rightarrow> nat" where
  "update_changes v db = length (filter (player_key v) (player_details db))"

text \<open>
  Executing a statement: its arguments are bound first, and a binding error fails
  the call before the statement runs; then the new database and the result rows,
  or an error.
\<close>

fun run_stmt :: "stmt \<Rightarrow> database \<Rightarrow> database \<times> (js_error + jsval list)" where
  "run_stmt SelectAllPlayers db = (db, Inr (q_all_players db))"
| "run_stmt (SelectPlayerById args) db = (db, sbind (bind_args 1 args) (\<lambda>ps. Inr (q_player_by_id (ps ! 0) db)))"
| "run_stmt (UpdatePlayer args) db =
     (case bind_args 2 args of
        Inl e \<Rightarrow> (db, Inl e)
      | Inr ps \<Rightarrow> (update_player_name (ps ! 0) (ps ! 1) db, Inr []))"
| "run_stmt (SelectMatchById args) db = (db, sbind (bind_args 1 args) (\<lambda>ps. Inr (q_match_by_id (ps ! 0) db)))"
| "run_stmt (SelectPlayerMatches args) db =
     (db, sbind (bind_args 1 args) (\<lambda>ps. Inr (q_player_matches (ps ! 0) db)))"
| "run_stmt (SelectMatchPlayers args) db =
     (db, sbind (bind_args 1 args) (\<lambda>ps. Inr (q_match_players (ps ! 0) db)))"
| "run_stmt (SelectPlayerStats args) db = (db, sbind (bind_args 1 args) (\<lambda>ps. q_player_stats (ps ! 0) db))"

text \<open>
  The driver calls of the \<open>sqlite\<close> wrapper, each a promise: \<open>db.get\<close>
  resolves to the first row or \<open>undefined\<close>, \<open>db.all\<close> to the array of rows,
  \<open>db.run\<close> to an object carrying the number of changed rows; an SQLite error
  rejects the promise.
\<close>

datatype db_call = DbGet stmt | DbAll stmt | DbRun stmt

fun stmt_changes :: "stmt \<Rightarrow> database \<Rightarrow> nat" where
  "stmt_changes (UpdatePlayer args) db =
     (case bind_args 2 args of Inl e \<Rightarrow> 0 | Inr ps \<Rightarrow> update_changes (ps ! 1) db)"
| "stmt_changes s db = 0"

fun exec_call :: "db_call \<Rightarrow> database \<Rightarrow> database \<times> (js_error + jsval)" where
  "exec_call (DbGet s) db =
     (let (db', r) = run_stmt s db in (db', sbind r (\<lambda>rows. Inr (case rows of [] \<Rightarrow> Undef | x # _ \<Rightarrow> x))))"
| "exec_call (DbAll s) db = (let (db', r) = run_stmt s db in (db', sbind r (\<lambda>rows. Inr (Arr rows))))"
| "exec_call (DbRun s) db =
     (let (db', r) = run_stmt s db in (db', sbind r (\<lambda>_. Inr (Obj [(''changes'', Num (int (stmt_changes s db)))]))))"

lemmas affinity_defs = numeric_affinity_def trim_space_def sql_space_def unsigned_literal_def
  is_digit_def digits_value_def

subsection \<open>Binding and numbers\<close>

text \<open>
  Scalar arguments are bound one per position; an array as first argument
  supplies the positions from its elements. Ids up to \<open>2^53\<close> reach
  JavaScript exactly, and a REAL below \<open>10^15\<close> is stored as its digits and
  \<open>.0\<close>.
\<close>

lemma scalar_simps [simp]:
  "scalar Undef" "scalar Null" "scalar (Bool b)" "scalar (Num n)" "scalar (Str s)"
  "\<not> scalar (Obj fs)" "\<not> scalar (Arr xs)"
  by (simp_all add: scalar_def)

lemma bind_positional_fits:
  "length vs \<le> k \<Longrightarrow> bind_positional k vs = Inr (map bind_value vs @ replicate (k - length vs) SNull)"
  by (simp add: bind_positional_def)

lemma bind_args_scalar: "scalar v \<Longrightarrow> bind_args k (v # vs) = bind_positional k (v # vs)"
  by (cases v) (simp_all add: scalar_def)

lemma bind_args_one [simp]: "scalar v \<Longrightarrow> bind_args (Suc 0) [v] = Inr [bind_value v]"
  by (simp add: bind_args_scalar bind_positional_fits)

lemma bind_args_two [simp]: "scalar a \<Longrightarrow> bind_args 2 [a, b] = Inr [bind_value a, bind_value b]"
  by (simp add: bind_args_scalar bind_positional_fits)

lemma bind_positional_one [simp]: "bind_positional (Suc 0) [v] = Inr [bind_value v]"
  by (simp add: bind_positional_fits)

lemma bind_positional_two [simp]: "bind_positional 2 [a, b] = Inr [bind_value a, bind_value b]"
  by (simp add: bind_positional_fits)

lemma bind_positional_length: "bind_positional k vs = Inr ps \<Longrightarrow> length ps = k"
  by (auto simp: bind_positional_def split: if_splits)

lemma bind_args_length: "bind_args k vs = Inr ps \<Longrightarrow> length ps = k"
  by (induction k vs rule: bind_args.induct)
     (auto simp: bind_named_def Let_def bind_positional_length split: if_splits)

text \<open>
  Named binding of the object \<open>{"1": a, "2": b}\<close>, in either key order, and
  its failure on a key that names no position of the statement.
\<close>

lemma set_own_keys_order [simp]: "set (own_keys_order fs) = set fs"
  by (auto simp: own_keys_order_def)

lemma key_position_digits [simp]: "key_position ''1'' = 1" "key_position ''2'' = 2"
  by code_simp+

lemma array_index_digits [simp]: "is_array_index ''1''" "is_array_index ''2''"
  "digits_value ''1'' = 1" "digits_value ''2'' = 2"
  by code_simp+

lemma bind_named_two:
  "bind_named 2 [(''1'', a), (''2'', b)] = Inr [bind_value a, bind_value b]"
  "bind_named 2 [(''2'', b), (''1'', a)] = Inr [bind_value a, bind_value b]"
  by (cases "a = Undef"; cases "b = Undef"; simp add: bind_named_def own_keys_order_def upt_rec)+

lemma bind_named_range:
  assumes "(k, v) \<in> set fs" "v \<noteq> Undef" "key_position k \<notin> {1, 2}"
  shows "bind_named 2 fs = Inl range_error"
proof -
  let ?ps = "map (\<lambda>(name, v). (key_position name, v)) (filter (\<lambda>(name, v). v \<noteq> Undef) (own_keys_order fs))"
  have "(key_position k, v) \<in> set ?ps" using assms(1,2) by force
  moreover have "key_position k = 0 \<or> 2 < key_position k" using assms(3) by auto
  ultimately have "\<exists>x \<in> set ?ps. (\<lambda>(i, v). i = 0 \<or> 2 < i) x" by (intro bexI) auto
  then have "list_ex (\<lambda>(i, v). i = 0 \<or> 2 < i) ?ps" by (simp only: list_ex_iff)
  then show ?thesis by (simp add: bind_named_def)
qed

lemma bit_len_less: "a < 2 ^ k \<Longrightarrow> bit_len a \<le> k"
proof (induction a arbitrary: k rule: bit_len.induct)
  case (1 n)
  show ?case
  proof (cases "n = 0")
    case True
    then show ?thesis by (simp add: bit_len.simps)
  next
    case False
    with "1.prems" obtain k' where k: "k = Suc k'" by (cases k) auto
    with "1.prems" have "n div 2 < 2 ^ k'" by simp
    with "1.IH" [OF False] False k show ?thesis by (simp add: bit_len.simps)
  qed
qed

lemma bit_len_pow: "bit_len (2 ^ k) = Suc k"
proof (induction k)
  case 0
  then show ?case by (simp add: bit_len.simps)
next
  case (Suc k)
  then show ?case by (subst bit_len.simps) simp
qed

lemma round_double_nat_exact: "a \<le> 2 ^ 53 \<Longrightarrow> round_double_nat a = a"
proof (cases "a = 2 ^ 53")
  case True
  moreover have "bit_len (2 ^ 53) = 54" by (simp only: bit_len_pow)
  ultimately show ?thesis by (simp add: round_double_nat_def)
next
  case False
  assume "a \<le> 2 ^ 53"
  with False have "bit_len a \<le> 53" by (intro bit_len_less) simp
  then show ?thesis by (simp add: round_double_nat_def)
qed

lemma js_double_exact: "\<bar>n\<bar> \<le> 2 ^ 53 \<Longrightarrow> js_double n = n"
proof -
  assume "\<bar>n\<bar> \<le> 2 ^ 53"
  then have "nat \<bar>n\<bar> \<le> 2 ^ 53" by (simp add: nat_le_iff)
  then have "int (round_double_nat (nat \<bar>n\<bar>)) = \<bar>n\<bar>" by (simp add: round_double_nat_exact)
  then show ?thesis by (simp add: js_double_def sgn_mult_abs)
qed

lemma js_double_small [simp]: "0 \<le> n \<Longrightarrow> n \<le> 1000000 \<Longrightarrow> js_double n = n"
  by (simp add: js_double_exact)

lemma nat_to_string_length: "n < 10 ^ k \<Longrightarrow> 0 < k \<Longrightarrow> length (nat_to_string n) \<le> k"
proof (induction n arbitrary: k rule: nat_to_string.induct)
  case (1 n)
  show ?case
  proof (cases "n < 10")
    case True
    with "1.prems" show ?thesis by (subst nat_to_string.simps) simp
  next
    case False
    have "k \<noteq> 1" using "1.prems"(1) False by auto
    with "1.prems"(2) obtain k' where k: "k = Suc k'" "0 < k'" by (cases k) auto
    with "1.prems" have "n div 10 < 10 ^ k'" by (simp add: less_mult_imp_div_less)
    with "1.IH" [OF False] False k show ?thesis by (subst nat_to_string.simps) simp
  qed
qed

lemma real_text_small: "\<bar>r\<bar> < 10 ^ 15 \<Longrightarrow> real_text r = int_to_string r @ ''.0''"
proof -
  assume "\<bar>r\<bar> < 10 ^ 15"
  then have "nat \<bar>r\<bar> < 10 ^ 15" by (simp add: nat_less_iff)
  then have "length (nat_to_string (nat \<bar>r\<bar>)) \<le> 15" by (rule nat_to_string_length) simp
  then show ?thesis by (simp add: real_text_def int_to_string_def)
qed

subsection \<open>Well-formed databases\<close>

text \<open>
  What the schema's keys promise (the service never checks them, section 3 of the
  spec assumes them): row ids are unique in each table and every score row refers
  to an existing player and an existing match.
\<close>

definition wf_db :: "database \<Rightarrow> bool" where
  "wf_db db \<longleftrightarrow>
     distinct (map pd_player_id (player_details db)) \<and>
     distinct (map md_match_id (match_details db)) \<and>
     distinct (map pms_player_match_id (player_match_score db)) \<and>
     (\<forall>s \<in> set (player_match_score db).
        pms_player_id s \<in> pd_player_id ` set (player_details db) \<and>
        pms_match_id s \<in> md_match_id ` set (match_details db))"

subsection \<open>Keys\<close>

text \<open>A bound parameter equals at most one integer.\<close>

lemma sql_int_eq_unique: "sql_int_eq k v \<Longrightarrow> sql_int_eq k' v \<Longrightarrow> k = k'"
  by (cases v) auto

lemma player_key_same_id:
  "player_key v p \<Longrightarrow> player_key v q \<longleftrightarrow> pd_player_id q = pd_player_id p"
  by (auto simp: player_key_def dest: sql_int_eq_unique)

lemma select_player_unique:
  assumes "distinct (map pd_player_id (player_details db))"
    and "p \<in> set (player_details db)" and "player_key v p"
  shows "filter (player_key v) (player_details db) = [p]"
  using assms by (auto intro: filter_distinct_key simp: player_key_same_id)

lemma select_player_none:
  "(\<And>p. p \<in> set (player_details db) \<Longrightarrow> \<not> player_key v p) \<Longrightarrow>
   filter (player_key v) (player_details db) = []"
  by (simp add: filter_empty_conv)

subsection \<open>The update statement\<close>

lemma update_player_name_ids [simp]:
  "map pd_player_id (player_details (update_player_name n v db)) = map pd_player_id (player_details db)"
  by (induction "player_details db") (auto simp: update_player_name_def)

text \<open>Two updates of the same key: the later one overwrites the earlier.\<close>

lemma update_player_name_overwrite:
  "update_player_name a v (update_player_name b v db) = update_player_name a v db"
  by (simp add: update_player_name_def player_key_def comp_def)

lemma update_player_name_frame [simp]:
  "match_details (update_player_name n v db) = match_details db"
  "player_match_score (update_player_name n v db) = player_match_score db"
  by (simp_all add: update_player_name_def)

lemma update_player_name_wf: "wf_db db \<Longrightarrow> wf_db (update_player_name n v db)"
proof -
  have "pd_player_id ` set (player_details (update_player_name n v db)) =
        pd_player_id ` set (player_details db)"
    by (metis update_player_name_ids list.set_map)
  then show "wf_db db \<Longrightarrow> wf_db (update_player_name n v db)"
    by (simp add: wf_db_def)
qed

lemma update_player_name_no_key:
  "(\<And>p. p \<in> set (player_details db) \<Longrightarrow> \<not> player_key v p) \<Longrightarrow> update_player_name n v db = db"
  by (simp add: update_player_name_def)

lemma update_player_name_row:
  assumes "p \<in> set (player_details db)" "player_key v p"
  shows "p\<lparr>pd_player_name := text_affinity n\<rparr> \<in> set (player_details (update_player_name n v db))"
  using assms by (force simp: update_player_name_def)

lemma update_player_name_keyed:
  assumes "q \<in> set (player_details (update_player_name n v db))" "player_key v q"
  shows "pd_player_name q = text_affinity n"
  using assms by (auto simp: update_player_name_def player_key_def)

subsection \<open>sum()\<close>

text \<open>
  The running total stays in range exactly when no prefix of the summands leaves
  it; then the result is the exact sum.
\<close>

lemma sum_from_Inr_iff:
  "sum_from acc xs = Inr t \<longleftrightarrow>
     (\<forall>i \<in> {1..length xs}. in_i64 (acc + sum_list (take i xs))) \<and> t = acc + sum_list xs"
proof (induction xs arbitrary: acc)
  case Nil
  then show ?case by auto
next
  case (Cons x xs)
  have split: "(\<forall>i \<in> {1..length (x # xs)}. in_i64 (acc + sum_list (take i (x # xs)))) \<longleftrightarrow>
        in_i64 (acc + x) \<and> (\<forall>i \<in> {1..length xs}. in_i64 (acc + x + sum_list (take i xs)))"
  proof
    assume all: "\<forall>i \<in> {1..length (x # xs)}. in_i64 (acc + sum_list (take i (x # xs)))"
    have "in_i64 (acc + x)" using all[rule_format, of 1] by simp
    moreover have "in_i64 (acc + x + sum_list (take i xs))" if "i \<in> {1..length xs}" for i
      using all[rule_format, of "Suc i"] that by (simp add: add.assoc)
    ultimately show "in_i64 (acc + x) \<and> (\<forall>i \<in> {1..length xs}. in_i64 (acc + x + sum_list (take i xs)))"
      by blast
  next
    assume h: "in_i64 (acc + x) \<and> (\<forall>i \<in> {1..length xs}. in_i64 (acc + x + sum_list (take i xs)))"
    show "\<forall>i \<in> {1..length (x # xs)}. in_i64 (acc + sum_list (take i (x # xs)))"
    proof
      fix i assume i: "i \<in> {1..length (x # xs)}"
      show "in_i64 (acc + sum_list (take i (x # xs)))"
      proof (cases "i = 1")
        case True
        with h show ?thesis by simp
      next
        case False
        with i obtain j where "i = Suc j" "j \<in> {1..length xs}"
          by (cases i) auto
        with h show ?thesis by (simp add: add.assoc)
      qed
    qed
  qed
  show ?case
    unfolding split using Cons.IH [of "acc + x"] by (auto simp: add.assoc)
qed

lemma sql_sum_Inr_SInt:
  "sql_sum xs = Inr (SInt t) \<longleftrightarrow>
     xs \<noteq> [] \<and> (\<forall>i \<in> {1..length xs}. in_i64 (sum_list (take i xs))) \<and> t = sum_list xs"
  using sum_from_Inr_iff [of 0 xs t]
  by (cases "sum_from 0 xs") (auto simp: sql_sum_def)

lemma sql_sum_Nil [simp]: "sql_sum [] = Inr SNull"
  by (simp add: sql_sum_def)

lemma sql_sum_cases:
  "sql_sum xs = Inr SNull \<and> xs = [] \<or> (\<exists>t. sql_sum xs = Inr (SInt t)) \<or>
   sql_sum xs = Inl (SqliteError ''integer overflow'')"
proof -
  have "sum_from acc ys = Inl e \<Longrightarrow> e = SqliteError ''integer overflow''" for acc ys e
    by (induction acc ys rule: sum_from.induct) (auto split: if_splits)
  then show ?thesis by (cases "sum_from 0 xs") (auto simp: sql_sum_def)
qed

text \<open>Non-negative summands: only the total has to fit.\<close>

lemma sql_sum_nonneg:
  assumes "\<forall>x \<in> set xs. 0 \<le> x" "xs \<noteq> []" "sum_list xs \<le> i64_max"
  shows "sql_sum xs = Inr (SInt (sum_list xs))"
proof -
  have "in_i64 (sum_list (take i xs))" for i
  proof -
    have "sum_list xs = sum_list (take i xs) + sum_list (drop i xs)"
      by (metis append_take_drop_id sum_list_append)
    moreover have "0 \<le> sum_list (drop i xs)" "0 \<le> sum_list (take i xs)"
      using assms(1) by (auto intro!: sum_list_nonneg dest: in_set_dropD in_set_takeD)
    ultimately show ?thesis using assms(3) by (simp add: in_i64_def i64_min_def)
  qed
  with assms(2) show ?thesis by (simp add: sql_sum_Inr_SInt)
qed

subsection \<open>Joins\<close>

definition match_of :: "database \<Rightarrow> int \<Rightarrow> match_row" where
  "match_of db k = hd (filter (\<lambda>m. md_match_id m = k) (match_details db))"

definition player_of :: "database \<Rightarrow> int \<Rightarrow> player_row" where
  "player_of db k = hd (filter (\<lambda>p. pd_player_id p = k) (player_details db))"

lemma filter_match_of:
  assumes "wf_db db" "s \<in> set (player_match_score db)"
  shows "filter (\<lambda>m. md_match_id m = pms_match_id s) (match_details db) = [match_of db (pms_match_id s)]"
proof -
  from assms obtain m where "m \<in> set (match_details db)" "md_match_id m = pms_match_id s"
    by (auto simp: wf_db_def)
  with assms(1) have "filter (\<lambda>m. md_match_id m = pms_match_id s) (match_details db) = [m]"
    by (auto simp: wf_db_def intro: filter_distinct_key)
  then show ?thesis by (simp add: match_of_def)
qed

lemma filter_player_of:
  assumes "wf_db db" "s \<in> set (player_match_score db)"
  shows "filter (\<lambda>p. pd_player_id p = pms_player_id s) (player_details db) = [player_of db (pms_player_id s)]"
proof -
  from assms obtain p where "p \<in> set (player_details db)" "pd_player_id p = pms_player_id s"
    by (auto simp: wf_db_def)
  with assms(1) have "filter (\<lambda>p. pd_player_id p = pms_player_id s) (player_details db) = [p]"
    by (auto simp: wf_db_def intro: filter_distinct_key)
  then show ?thesis by (simp add: player_of_def)
qed

text \<open>The stats join of an existing player: that player paired with each of its score rows.\<close>

lemma stats_join_player:
  assumes "wf_db db" "p \<in> set (player_details db)" "player_key v p"
  shows "stats_join v db =
           map (\<lambda>s. (s, p)) (filter (\<lambda>s. pms_player_id s = pd_player_id p) (player_match_score db))"
proof -
  have inner: "filter (\<lambda>q. pms_player_id s = pd_player_id q \<and> player_key v q) (player_details db) =
               (if pms_player_id s = pd_player_id p then [p] else [])" for s
  proof (cases "pms_player_id s = pd_player_id p")
    case True
    with assms show ?thesis
      by (auto simp: wf_db_def player_key_same_id intro: filter_distinct_key)
  next
    case False
    with assms(3) show ?thesis by (auto simp: filter_empty_conv player_key_same_id)
  qed
  have eq: "map (Pair s) (filter (\<lambda>q. pms_player_id s = pd_player_id q \<and> player_key v q)
          (player_details db)) = (if pms_player_id s = pd_player_id p then [(s, p)] else [])" for s
    using inner [of s] by simp
  show ?thesis by (simp add: stats_join_def eq)
qed

text \<open>
  The matches of a player: one row per score row of the player, the match that row
  refers to; the players of a match likewise.
\<close>

lemma q_player_matches_mset:
  assumes "wf_db db"
  shows "mset (q_player_matches v db) =
           image_mset (\<lambda>s. match_obj (match_of db (pms_match_id s)))
             (filter_mset (\<lambda>s. sql_int_eq (pms_player_id s) v) (mset (player_match_score db)))"
proof -
  let ?g = "\<lambda>m s. if md_match_id m = pms_match_id s \<and> sql_int_eq (pms_player_id s) v
                  then [match_obj m] else []"
  let ?h = "\<lambda>s. if sql_int_eq (pms_player_id s) v then [match_obj (match_of db (pms_match_id s))] else []"
  have swap: "mset (q_player_matches v db) =
      mset (concat (map (\<lambda>s. concat (map (\<lambda>m. ?g m s) (match_details db))) (player_match_score db)))"
    unfolding q_player_matches_def by (rule mset_concat_map_swap)
  have inner: "concat (map (\<lambda>m. ?g m s) (match_details db)) = ?h s"
    if "s \<in> set (player_match_score db)" for s
    by (cases "sql_int_eq (pms_player_id s) v") (simp_all add: filter_match_of [OF assms that])
  have "map (\<lambda>s. concat (map (\<lambda>m. ?g m s) (match_details db))) (player_match_score db) =
        map ?h (player_match_score db)"
    by (rule map_cong [OF refl inner])
  with swap have "mset (q_player_matches v db) = mset (concat (map ?h (player_match_score db)))"
    by (simp only:)
  then show ?thesis by simp
qed

lemma q_match_players_mset:
  assumes "wf_db db"
  shows "mset (q_match_players v db) =
           image_mset (\<lambda>s. player_obj (player_of db (pms_player_id s)))
             (filter_mset (\<lambda>s. sql_int_eq (pms_match_id s) v) (mset (player_match_score db)))"
proof -
  let ?g = "\<lambda>p s. if pd_player_id p = pms_player_id s \<and> sql_int_eq (pms_match_id s) v
                  then [player_obj p] else []"
  let ?h = "\<lambda>s. if sql_int_eq (pms_match_id s) v then [player_obj (player_of db (pms_player_id s))] else []"
  have swap: "mset (q_match_players v db) =
      mset (concat (map (\<lambda>s. concat (map (\<lambda>p. ?g p s) (player_details db))) (player_match_score db)))"
    unfolding q_match_players_def by (rule mset_concat_map_swap)
  have inner: "concat (map (\<lambda>p. ?g p s) (player_details db)) = ?h s"
    if "s \<in> set (player_match_score db)" for s
    by (cases "sql_int_eq (pms_match_id s) v") (simp_all add: filter_player_of [OF assms that])
  have "map (\<lambda>s. concat (map (\<lambda>p. ?g p s) (player_details db))) (player_match_score db) =
        map ?h (player_match_score db)"
    by (rule map_cong [OF refl inner])
  with swap have "mset (q_match_players v db) = mset (concat (map ?h (player_match_score db)))"
    by (simp only:)
  then show ?thesis by simp
qed

lemma stats_join_empty:
  "(\<And>s. s \<in> set (player_match_score db) \<Longrightarrow> \<not> sql_int_eq (pms_player_id s) v) \<Longrightarrow>
   stats_join v db = []"
  by (auto simp: stats_join_def player_key_def filter_empty_conv; metis)

lemma bare_columns_player:
  "xs \<noteq> [] \<Longrightarrow> bare_columns (map (\<lambda>s. (s, p)) xs) = (Num (js_double (pd_player_id p)), sql_js (pd_player_name p))"
  by (cases xs) (simp_all add: bare_columns_def last_map)

lemma sql_sum_overflow:
  "\<not> (\<forall>i \<in> {1..length xs}. in_i64 (sum_list (take i xs))) \<Longrightarrow>
   sql_sum xs = Inl (SqliteError ''integer overflow'')"
  using sql_sum_cases [of xs] by (auto simp: sql_sum_Inr_SInt)

lemma stats_join_no_player:
  "(\<And>p. p \<in> set (player_details db) \<Longrightarrow> \<not> player_key v p) \<Longrightarrow> stats_join v db = []"
  by (simp add: stats_join_def filter_empty_conv)

lemma digit_char_simps [simp]:
  "digit_char 0 = CHR ''0''" "digit_char (Suc 0) = CHR ''1''" "digit_char 2 = CHR ''2''" "digit_char 3 = CHR ''3''"
  "digit_char 4 = CHR ''4''" "digit_char 5 = CHR ''5''" "digit_char 6 = CHR ''6''" "digit_char 7 = CHR ''7''"
  "digit_char 8 = CHR ''8''" "digit_char 9 = CHR ''9''"
  by code_simp+

lemma int_to_string_bits: "int_to_string 1 = ''1''" "int_to_string 0 = ''0''"
  by (simp_all add: int_to_string_def nat_to_string.simps)

subsection \<open>Properties of the storage layer\<close>



subsection \<open>A sample database\<close>

text \<open>
  A small instance used to instantiate the theorems: player 7 has the two score
  rows (50, 4, 1) and (30, 2, 0) of the spec's example, player 3 has none.
\<close>

definition sample_db :: database where
  "sample_db = \<lparr>
     player_details = [\<lparr>pd_player_id = 1, pd_player_name = SText ''Ram''\<rparr>,
                       \<lparr>pd_player_id = 3, pd_player_name = SText ''Ravi''\<rparr>,
                       \<lparr>pd_player_id = 7, pd_player_name = SText ''Virat''\<rparr>],
     match_details = [\<lparr>md_match_id = 1, md_match = ''RR vs SRH'', md_year = 2011\<rparr>,
                      \<lparr>md_match_id = 2, md_match = ''SRH vs MI'', md_year = 2012\<rparr>],
     player_match_score =
       [\<lparr>pms_player_match_id = 1, pms_player_id = 7, pms_match_id = 1, pms_score = 50, pms_fours = 4, pms_sixes = 1\<rparr>,
        \<lparr>pms_player_match_id = 2, pms_player_id = 7, pms_match_id = 2, pms_score = 30, pms_fours = 2, pms_sixes = 0\<rparr>,
        \<lparr>pms_player_match_id = 3, pms_player_id = 1, pms_match_id = 1, pms_score = 12, pms_fours = 1, pms_sixes = 0\<rparr>]\<rparr>"

lemma wf_sample_db: "wf_db sample_db"
  by (simp add: wf_db_def sample_db_def)



end
