(* ===== verification/Convert.thy ===== *)
theory Convert
  imports Sql
begin

text \<open>
  The response transformers of \<open>src/app.js\<close>: each reads the snake_case
  properties of a driver row and builds the camelCase response object. Reading a
  property of \<open>undefined\<close> (the row \<open>db.get\<close> resolves to when no row matches)
  throws a \<open>TypeError\<close>; the transformers do not check for it.
\<close>

definition convertPlayerDbObjectToResponseObject :: "jsval \<Rightarrow> js_error + jsval" where
  "convertPlayerDbObjectToResponseObject dbObject =
     sbind (js_get dbObject ''player_id'') (\<lambda>playerId.
     sbind (js_get dbObject ''player_name'') (\<lambda>playerName.
     Inr (Obj [(''playerId'', playerId), (''playerName'', playerName)])))"

definition convertMatchDbObjectToResponseObject :: "jsval \<Rightarrow> js_error + jsval" where
  "convertMatchDbObjectToResponseObject dbObject =
     sbind (js_get dbObject ''match_id'') (\<lambda>matchId.
     sbind (js_get dbObject ''match'') (\<lambda>match.
     sbind (js_get dbObject ''year'') (\<lambda>year.
     Inr (Obj [(''matchId'', matchId), (''match'', match), (''year'', year)]))))"

definition convertPlayerScoreDbObjectToResponseObject :: "jsval \<Rightarrow> js_error + jsval" where
  "convertPlayerScoreDbObjectToResponseObject dbObject =
     sbind (js_get dbObject ''player_match_id'') (\<lambda>playerMatchId.
     sbind (js_get dbObject ''player_id'') (\<lambda>playerId.
     sbind (js_get dbObject ''match_id'') (\<lambda>matchId.
     sbind (js_get dbObject ''score'') (\<lambda>score.
     sbind (js_get dbObject ''fours'') (\<lambda>fours.
     sbind (js_get dbObject ''sixes'') (\<lambda>sixes.
     Inr (Obj [(''playerMatchId'', playerMatchId), (''playerId'', playerId), (''matchId'', matchId),
               (''score'', score), (''fours'', fours), (''sixes'', sixes)])))))))"

subsection \<open>The transformers on driver rows\<close>

definition player_response :: "player_row \<Rightarrow> jsval" where
  "player_response p =
     Obj [(''playerId'', Num (js_double (pd_player_id p))), (''playerName'', sql_js (pd_player_name p))]"

definition match_response :: "match_row \<Rightarrow> jsval" where
  "match_response m =
     Obj [(''matchId'', Num (js_double (md_match_id m))), (''match'', Str (md_match m)),
          (''year'', Num (js_double (md_year m)))]"

lemma convert_player_obj [simp]:
  "convertPlayerDbObjectToResponseObject (player_obj p) = Inr (player_response p)"
  by (simp add: convertPlayerDbObjectToResponseObject_def player_obj_def player_response_def)

lemma convert_match_obj [simp]:
  "convertMatchDbObjectToResponseObject (match_obj m) = Inr (match_response m)"
  by (simp add: convertMatchDbObjectToResponseObject_def match_obj_def match_response_def)

lemma convert_player_undefined [simp]:
  "convertPlayerDbObjectToResponseObject Undef =
     Inl (TypeError (cannot_read ''undefined'' ''player_id''))"
  by (simp add: convertPlayerDbObjectToResponseObject_def)

lemma convert_match_undefined [simp]:
  "convertMatchDbObjectToResponseObject Undef =
     Inl (TypeError (cannot_read ''undefined'' ''match_id''))"
  by (simp add: convertMatchDbObjectToResponseObject_def)

end
