(* ===== verification/Handlers.thy ===== *)
theory Handlers
  imports Convert
begin

text \<open>
  The seven route handlers of \<open>src/app.js\<close> (API 1 to API 7). Each is an async
  function with exactly one \<open>await\<close>: it reads its parameters, issues one driver
  call and suspends; when the promise settles it transforms the result and sends
  the response. A handler is therefore modelled as a \<open>step\<close>: either it finished
  before reaching the \<open>await\<close> (\<open>Done\<close>, only when destructuring the request
  throws), or it awaits a driver call with a continuation for the resolved value
  (\<open>Await\<close>). A rejected promise, or an exception in the continuation, rejects
  the handler's own promise (\<open>Rejected\<close>): Express does not catch it and no
  response is sent. \<open>run_step\<close> runs a step to completion against a database.
\<close>

record request =
  req_params :: "(string \<times> string) list"
  req_body :: jsval

datatype step =
    Done outcome
  | Await db_call "jsval \<Rightarrow> outcome"

text \<open>\<open>const {playerId} = req.params\<close>: the path parameters form an object of strings.\<close>

definition param :: "request \<Rightarrow> string \<Rightarrow> jsval" where
  "param req k = field (map (\<lambda>(n, v). (n, Str v)) (req_params req)) k"

definition run_step :: "step \<Rightarrow> database \<Rightarrow> database \<times> outcome" where
  "run_step st db = (case st of
       Done out \<Rightarrow> (db, out)
     | Await c k \<Rightarrow> (let (db', r) = exec_call c db in
                     (db', case r of Inl e \<Rightarrow> Rejected e | Inr v \<Rightarrow> k v)))"

subsection \<open>The handlers\<close>

text \<open>API 1, \<open>GET /players/\<close>.\<close>

definition get_players :: "request \<Rightarrow> step" where
  [handler_defs]: "get_players req =
     Await (DbAll SelectAllPlayers)
       (\<lambda>players. send_result (js_map convertPlayerDbObjectToResponseObject players))"

text \<open>API 2, \<open>GET /players/:playerId/\<close>.\<close>

definition get_player :: "request \<Rightarrow> step" where
  [handler_defs]: "get_player req =
     (let playerId = param req ''playerId''
      in Await (DbGet (SelectPlayerById [playerId]))
           (\<lambda>player. send_result (convertPlayerDbObjectToResponseObject player)))"

text \<open>
  API 3, \<open>PUT /players/:playerId/\<close>. \<open>db.run(query, playerName, playerId)\<close>
  hands both values to the driver, which binds them by position unless
  \<open>playerName\<close> is an array or an object (then it alone supplies the parameters).
\<close>

definition put_player :: "request \<Rightarrow> step" where
  [handler_defs]: "put_player req =
     (let playerId = param req ''playerId''
      in case js_get (req_body req) ''playerName'' of
           Inl e \<Rightarrow> Done (Rejected e)
         | Inr playerName \<Rightarrow>
             Await (DbRun (UpdatePlayer [playerName, playerId]))
               (\<lambda>_. send_result (Inr (Str ''Player Details Updated''))))"

text \<open>API 4, \<open>GET /matches/:matchId/\<close>.\<close>

definition get_match :: "request \<Rightarrow> step" where
  [handler_defs]: "get_match req =
     (let matchId = param req ''matchId''
      in Await (DbGet (SelectMatchById [matchId]))
           (\<lambda>match. send_result (convertMatchDbObjectToResponseObject match)))"

text \<open>API 5, \<open>GET /players/:playerId/matches\<close>.\<close>

definition get_player_matches :: "request \<Rightarrow> step" where
  [handler_defs]: "get_player_matches req =
     (let playerId = param req ''playerId''
      in Await (DbAll (SelectPlayerMatches [playerId]))
           (\<lambda>matches. send_result (js_map convertMatchDbObjectToResponseObject matches)))"

text \<open>API 6, \<open>GET /matches/:matchId/players\<close>.\<close>

definition get_match_players :: "request \<Rightarrow> step" where
  [handler_defs]: "get_match_players req =
     (let matchId = param req ''matchId''
      in Await (DbAll (SelectMatchPlayers [matchId]))
           (\<lambda>players. send_result (js_map convertPlayerDbObjectToResponseObject players)))"

text \<open>
  API 7, \<open>GET /players/:playerId/playerScores\<close>. The parameter is passed as the
  array \<open>[playerId]\<close>, which the driver spreads into the statement's parameters.
\<close>

definition stats_response :: "jsval \<Rightarrow> js_error + jsval" where
  "stats_response stats =
     sbind (js_get stats ''player_id'') (\<lambda>a.
     sbind (js_get stats ''player_name'') (\<lambda>b.
     sbind (js_get stats ''total_score'') (\<lambda>c.
     sbind (js_get stats ''total_fours'') (\<lambda>d.
     sbind (js_get stats ''total_sixes'') (\<lambda>e.
     Inr (Obj [(''playerId'', a), (''playerName'', b), (''totalScore'', c),
               (''totalFours'', d), (''totalSixes'', e)]))))))"

definition get_player_stats :: "request \<Rightarrow> step" where
  [handler_defs]: "get_player_stats request =
     (let playerId = param request ''playerId''
      in Await (DbGet (SelectPlayerStats [Arr [playerId]]))
           (\<lambda>stats. send_result (stats_response stats)))"

subsection \<open>Facts the handler proofs share\<close>

lemma sql_js_not_Undef [simp]: "sql_js v \<noteq> Undef"
  by (cases v) simp_all

lemma to_json_player_response [simp]:
  "to_json (player_response p) =
     JObject [(''playerId'', JNumber (js_double (pd_player_id p))), (''playerName'', to_json (sql_js (pd_player_name p)))]"
  by (simp add: player_response_def)

lemma to_json_match_response [simp]:
  "to_json (match_response m) =
     JObject [(''matchId'', JNumber (js_double (md_match_id m))), (''match'', JString (md_match m)), (''year'', JNumber (js_double (md_year m)))]"
  by (simp add: match_response_def)

lemma set_q_player_matches: "x \<in> set (q_player_matches v db) \<Longrightarrow> x \<in> match_obj ` set (match_details db)"
  by (auto simp: q_player_matches_def split: if_splits)

lemma set_q_match_players: "x \<in> set (q_match_players v db) \<Longrightarrow> x \<in> player_obj ` set (player_details db)"
  by (auto simp: q_match_players_def split: if_splits)

text \<open>Each list endpoint converts every row it gets: the conversion never throws there.\<close>

lemma js_map_player_rows:
  assumes "\<And>x. x \<in> set xs \<Longrightarrow> x \<in> player_obj ` P"
  shows "js_map convertPlayerDbObjectToResponseObject (Arr xs) =
     Inr (Arr (map (projr \<circ> convertPlayerDbObjectToResponseObject) xs))"
proof -
  have "mapM_sum convertPlayerDbObjectToResponseObject xs =
        Inr (map (projr \<circ> convertPlayerDbObjectToResponseObject) xs)"
  proof (rule mapM_sum_ok)
    fix x assume "x \<in> set xs"
    then obtain r where "x = player_obj r" using assms by blast
    then show "\<exists>y. convertPlayerDbObjectToResponseObject x = Inr y" by simp
  qed
  then show ?thesis by simp
qed

lemma js_map_match_rows:
  assumes "\<And>x. x \<in> set xs \<Longrightarrow> x \<in> match_obj ` M"
  shows "js_map convertMatchDbObjectToResponseObject (Arr xs) =
     Inr (Arr (map (projr \<circ> convertMatchDbObjectToResponseObject) xs))"
proof -
  have "mapM_sum convertMatchDbObjectToResponseObject xs =
        Inr (map (projr \<circ> convertMatchDbObjectToResponseObject) xs)"
  proof (rule mapM_sum_ok)
    fix x assume "x \<in> set xs"
    then obtain r where "x = match_obj r" using assms by blast
    then show "\<exists>y. convertMatchDbObjectToResponseObject x = Inr y" by simp
  qed
  then show ?thesis by simp
qed

text \<open>A path parameter is a string, or undefined when the route has none of that name.\<close>

lemma scalar_param [simp]: "scalar (param req k)"
  by (simp add: param_def field_def map_of_map scalar_def split: option.splits)

lemma db_get_player_row:
  assumes "wf_db db" "p \<in> set (player_details db)" "scalar a" "player_key (bind_value a) p"
  shows "exec_call (DbGet (SelectPlayerById [a])) db = (db, Inr (player_obj p))"
  using select_player_unique [of db p "bind_value a"] assms by (simp add: wf_db_def q_player_by_id_def)

lemma db_get_player_none:
  assumes "scalar a" "\<forall>p \<in> set (player_details db). \<not> player_key (bind_value a) p"
  shows "exec_call (DbGet (SelectPlayerById [a])) db = (db, Inr Undef)"
  using assms by (simp add: q_player_by_id_def filter_empty_conv)

text \<open>
  The PUT handler: a scalar name is bound with the path's id; an array name
  supplies both parameters from its elements.
\<close>

lemma run_put_player:
  assumes "js_get (req_body req) ''playerName'' = Inr name" "scalar name"
  shows "run_step (put_player req) db =
    (update_player_name (bind_value name) (bind_value (param req ''playerId'')) db, Sent (RText ''Player Details Updated''))"
  using assms by (simp add: put_player_def run_step_def)

lemma run_put_player_bind:
  assumes "js_get (req_body req) ''playerName'' = Inr name"
  shows "run_step (put_player req) db =
    (case bind_args 2 [name, param req ''playerId''] of
       Inl e \<Rightarrow> (db, Rejected e)
     | Inr ps \<Rightarrow> (update_player_name (ps ! 0) (ps ! 1) db, Sent (RText ''Player Details Updated'')))"
  using assms by (simp add: put_player_def run_step_def split: sum.split)

lemma run_put_player_array:
  assumes "js_get (req_body req) ''playerName'' = Inr (Arr vs)"
  shows "run_step (put_player req) db =
    (case bind_positional 2 vs of
       Inl e \<Rightarrow> (db, Rejected e)
     | Inr ps \<Rightarrow> (update_player_name (ps ! 0) (ps ! 1) db, Sent (RText ''Player Details Updated'')))"
  using assms by (simp add: put_player_def run_step_def split: sum.split)

lemma run_put_player_object:
  assumes "js_get (req_body req) ''playerName'' = Inr (Obj fs)"
  shows "run_step (put_player req) db =
    (case bind_named 2 fs of
       Inl e \<Rightarrow> (db, Rejected e)
     | Inr ps \<Rightarrow> (update_player_name (ps ! 0) (ps ! 1) db, Sent (RText ''Player Details Updated'')))"
  using assms by (simp add: put_player_def run_step_def split: sum.split)

lemma db_get_player_after_update:
  assumes "wf_db db" "p \<in> set (player_details db)" "scalar a" "player_key (bind_value a) p"
  shows "exec_call (DbGet (SelectPlayerById [a])) (update_player_name n (bind_value a) db) =
           (update_player_name n (bind_value a) db, Inr (player_obj (p\<lparr>pd_player_name := text_affinity n\<rparr>)))"
proof (rule db_get_player_row)
  show "wf_db (update_player_name n (bind_value a) db)" using assms(1) by (rule update_player_name_wf)
  show "p\<lparr>pd_player_name := text_affinity n\<rparr> \<in> set (player_details (update_player_name n (bind_value a) db))"
    using assms(2,4) by (rule update_player_name_row)
  show "player_key (bind_value a) (p\<lparr>pd_player_name := text_affinity n\<rparr>)"
    using assms(4) by (simp add: player_key_def)
qed (rule assms(3))

lemma db_get_match_row:
  assumes "wf_db db" "m \<in> set (match_details db)" "scalar a" "sql_int_eq (md_match_id m) (bind_value a)"
  shows "exec_call (DbGet (SelectMatchById [a])) db = (db, Inr (match_obj m))"
proof -
  have "filter (\<lambda>m'. sql_int_eq (md_match_id m') (bind_value a)) (match_details db) = [m]"
  proof (rule filter_distinct_key)
    show "distinct (map md_match_id (match_details db))" using assms(1) by (simp add: wf_db_def)
    show "m \<in> set (match_details db)" by (rule assms(2))
    show "sql_int_eq (md_match_id y) (bind_value a) \<longleftrightarrow> md_match_id y = md_match_id m" for y
      using assms(4) by (metis sql_int_eq_unique)
  qed
  then show ?thesis using assms(3) by (simp add: q_match_by_id_def)
qed

subsection \<open>Functional behaviour of the handlers\<close>

text \<open>
  C10. A PUT of a new name that is a string, number, boolean, null or undefined
  (not an array or object) for an existing player answers "Player Details
  Updated", and a following GET of that player returns its id and the new name,
  as the TEXT column stores it.
\<close>

theorem put_then_get:
  assumes "wf_db db" "p \<in> set (player_details db)"
    and "player_key (bind_value (param req ''playerId'')) p"
    and "js_get (req_body req) ''playerName'' = Inr name" "scalar name"
    and "param req' ''playerId'' = param req ''playerId''"
  shows "snd (run_step (put_player req) db) = Sent (RText ''Player Details Updated'') \<and>
         run_step (get_player req') (fst (run_step (put_player req) db)) =
           (fst (run_step (put_player req) db),
            Sent (RJson (JObject [(''playerId'', JNumber (js_double (pd_player_id p))),
                                  (''playerName'', to_json (sql_js (text_affinity (bind_value name))))])))"
proof -
  let ?v = "bind_value (param req ''playerId'')"
  have put: "run_step (put_player req) db =
      (update_player_name (bind_value name) ?v db, Sent (RText ''Player Details Updated''))"
    using assms(4,5) by (rule run_put_player)
  with db_get_player_after_update [OF assms(1,2) scalar_param assms(3)] assms(6) show ?thesis
    by (simp add: get_player_def run_step_def player_response_def)
qed

text \<open>
  C3. The statistics of a player with score rows whose values are non-negative and
  whose totals fit in 64 bits: its id, its name and the sums of score, fours and
  sixes over all its score rows.
\<close>

theorem get_player_stats_totals:
  assumes "wf_db db" "p \<in> set (player_details db)"
    and "player_key (bind_value (param req ''playerId'')) p"
    and "sc = filter (\<lambda>s. pms_player_id s = pd_player_id p) (player_match_score db)" "sc \<noteq> []"
    and "\<forall>s \<in> set sc. 0 \<le> pms_score s \<and> 0 \<le> pms_fours s \<and> 0 \<le> pms_sixes s"
    and "sum_list (map pms_score sc) \<le> i64_max" "sum_list (map pms_fours sc) \<le> i64_max"
    and "sum_list (map pms_sixes sc) \<le> i64_max"
  shows "run_step (get_player_stats req) db =
    (db, Sent (RJson (JObject [(''playerId'', JNumber (js_double (pd_player_id p))),
                               (''playerName'', to_json (sql_js (pd_player_name p))),
                               (''totalScore'', JNumber (js_double (sum_list (map pms_score sc)))),
                               (''totalFours'', JNumber (js_double (sum_list (map pms_fours sc)))),
                               (''totalSixes'', JNumber (js_double (sum_list (map pms_sixes sc))))])))"
proof -
  have "sql_sum (map pms_score sc) = Inr (SInt (sum_list (map pms_score sc)))"
    "sql_sum (map pms_fours sc) = Inr (SInt (sum_list (map pms_fours sc)))"
    "sql_sum (map pms_sixes sc) = Inr (SInt (sum_list (map pms_sixes sc)))"
    using assms(5-9) by (auto intro!: sql_sum_nonneg)
  moreover have "bare_columns (map (\<lambda>s. (s, p)) sc) = (Num (js_double (pd_player_id p)), sql_js (pd_player_name p))"
    using assms(5) by (rule bare_columns_player)
  ultimately show ?thesis
    using stats_join_player [OF assms(1-3)] assms(4)
    by (simp add: get_player_stats_def stats_response_def run_step_def q_player_stats_def comp_def)
qed

text \<open>
  C4. GET /players/:id/matches answers a JSON array holding, for every score row of
  the player, the match that row refers to: no match is missing, and a match appears
  as often as the player has score rows for it.
\<close>

theorem get_player_matches_mset:
  assumes "wf_db db"
  shows "\<exists>js. run_step (get_player_matches req) db = (db, Sent (RJson (JArray js))) \<and>
     mset js = image_mset (\<lambda>s. to_json (match_response (match_of db (pms_match_id s))))
       (filter_mset (\<lambda>s. sql_int_eq (pms_player_id s) (bind_value (param req ''playerId'')))
          (mset (player_match_score db)))"
proof -
  let ?q = "q_player_matches (bind_value (param req ''playerId'')) db"
  let ?f = "projr \<circ> convertMatchDbObjectToResponseObject"
  have "js_map convertMatchDbObjectToResponseObject (Arr ?q) = Inr (Arr (map ?f ?q))"
    by (rule js_map_match_rows) (rule set_q_player_matches)
  then have run: "run_step (get_player_matches req) db = (db, Sent (RJson (JArray (map to_json (map ?f ?q)))))"
    by (simp add: get_player_matches_def run_step_def)
  have "mset (map to_json (map ?f ?q)) = image_mset (to_json \<circ> ?f) (mset ?q)"
    by simp
  also have "\<dots> = image_mset (\<lambda>s. to_json (match_response (match_of db (pms_match_id s))))
       (filter_mset (\<lambda>s. sql_int_eq (pms_player_id s) (bind_value (param req ''playerId'')))
          (mset (player_match_score db)))"
    by (simp add: q_player_matches_mset [OF assms] image_mset.compositionality comp_def)
  finally show ?thesis using run by blast
qed

text \<open>
  C7. GET /matches/:id/players answers a JSON array holding, for every score row of
  the match, the player that row refers to.
\<close>

theorem get_match_players_mset:
  assumes "wf_db db"
  shows "\<exists>js. run_step (get_match_players req) db = (db, Sent (RJson (JArray js))) \<and>
     mset js = image_mset (\<lambda>s. to_json (player_response (player_of db (pms_player_id s))))
       (filter_mset (\<lambda>s. sql_int_eq (pms_match_id s) (bind_value (param req ''matchId'')))
          (mset (player_match_score db)))"
proof -
  let ?q = "q_match_players (bind_value (param req ''matchId'')) db"
  let ?f = "projr \<circ> convertPlayerDbObjectToResponseObject"
  have "js_map convertPlayerDbObjectToResponseObject (Arr ?q) = Inr (Arr (map ?f ?q))"
    by (rule js_map_player_rows) (rule set_q_match_players)
  then have run: "run_step (get_match_players req) db = (db, Sent (RJson (JArray (map to_json (map ?f ?q)))))"
    by (simp add: get_match_players_def run_step_def)
  have "mset (map to_json (map ?f ?q)) = image_mset (to_json \<circ> ?f) (mset ?q)"
    by simp
  also have "\<dots> = image_mset (\<lambda>s. to_json (player_response (player_of db (pms_player_id s))))
       (filter_mset (\<lambda>s. sql_int_eq (pms_match_id s) (bind_value (param req ''matchId'')))
          (mset (player_match_score db)))"
    by (simp add: q_match_players_mset [OF assms] image_mset.compositionality comp_def del: to_json_player_response)
  finally show ?thesis using run by blast
qed

text \<open>
  C8. GET /players/ never fails: it answers the JSON array of all players, in table
  order, each with its id and name; an empty table gives the empty array.
\<close>

theorem get_players_all:
  "run_step (get_players req) db =
     (db, Sent (RJson (JArray (map (\<lambda>p. JObject [(''playerId'', JNumber (js_double (pd_player_id p))),
                                                  (''playerName'', to_json (sql_js (pd_player_name p)))])
                                   (player_details db)))))"
proof -
  have "js_map convertPlayerDbObjectToResponseObject (Arr (q_all_players db)) =
        Inr (Arr (map (projr \<circ> convertPlayerDbObjectToResponseObject) (q_all_players db)))"
    by (rule js_map_player_rows [where P = "set (player_details db)"]) (auto simp: q_all_players_def)
  then show ?thesis
    by (simp add: get_players_def run_step_def q_all_players_def comp_def)
qed

text \<open>
  C14. GET /players/:id/ for an existing player returns the stored id and the current
  stored name; the parameter selects the player after SQLite's numeric affinity.
\<close>

theorem get_player_existing:
  assumes "wf_db db" "p \<in> set (player_details db)"
    and "player_key (bind_value (param req ''playerId'')) p"
  shows "run_step (get_player req) db =
    (db, Sent (RJson (JObject [(''playerId'', JNumber (js_double (pd_player_id p))),
                               (''playerName'', to_json (sql_js (pd_player_name p)))])))"
  using db_get_player_row [OF assms(1,2) scalar_param assms(3)] by (simp add: get_player_def run_step_def player_response_def)

text \<open>
  C15. GET /players/:id/ for an id no player has does not answer with empty fields:
  the transformer reads a property of undefined, the handler's promise rejects with a
  TypeError and no response is sent.
\<close>

theorem get_player_missing:
  assumes "\<forall>p \<in> set (player_details db). \<not> player_key (bind_value (param req ''playerId'')) p"
  shows "run_step (get_player req) db =
           (db, Rejected (TypeError (cannot_read ''undefined'' ''player_id'')))"
  using db_get_player_none [OF scalar_param assms] by (simp add: get_player_def run_step_def)

text \<open>
  C16. GET /matches/:id/ for an existing match returns its id, label and year.
\<close>

theorem get_match_existing:
  assumes "wf_db db" "m \<in> set (match_details db)"
    and "sql_int_eq (md_match_id m) (bind_value (param req ''matchId''))"
  shows "run_step (get_match req) db =
    (db, Sent (RJson (JObject [(''matchId'', JNumber (js_double (md_match_id m))), (''match'', JString (md_match m)),
                               (''year'', JNumber (js_double (md_year m)))])))"
  using db_get_match_row [OF assms(1,2) scalar_param assms(3)] by (simp add: get_match_def run_step_def match_response_def)

text \<open>
  C18. GET /players/:id/playerScores when no score row belongs to the id (an existing
  player without scores, or no such player) answers, without failing, an object
  whose five fields are all null: the aggregate query returns one row of NULLs.
\<close>

theorem get_player_stats_no_scores:
  assumes "\<forall>s \<in> set (player_match_score db). \<not> sql_int_eq (pms_player_id s) (bind_value (param req ''playerId''))"
  shows "run_step (get_player_stats req) db =
    (db, Sent (RJson (JObject [(''playerId'', JNull), (''playerName'', JNull), (''totalScore'', JNull),
                               (''totalFours'', JNull), (''totalSixes'', JNull)])))"
proof -
  have "stats_join (bind_value (param req ''playerId'')) db = []"
    using assms by (intro stats_join_empty) auto
  then show ?thesis
    by (simp add: get_player_stats_def run_step_def q_player_stats_def stats_response_def bare_columns_def)
qed

text \<open>
  C19. When a running total of the player's scores leaves the signed 64-bit range,
  SQLite's sum() fails and the handler's promise rejects with "integer overflow";
  no response is sent.
\<close>

theorem get_player_stats_overflow:
  assumes "wf_db db" "p \<in> set (player_details db)"
    and "player_key (bind_value (param req ''playerId'')) p"
    and "sc = filter (\<lambda>s. pms_player_id s = pd_player_id p) (player_match_score db)"
    and "\<not> (\<forall>i \<in> {1..length sc}. in_i64 (sum_list (take i (map pms_score sc))))"
  shows "run_step (get_player_stats req) db = (db, Rejected (SqliteError ''integer overflow''))"
proof -
  have "sql_sum (map pms_score sc) = Inl (SqliteError ''integer overflow'')"
    by (rule sql_sum_overflow) (use assms(5) in simp)
  then show ?thesis
    using stats_join_player [OF assms(1-3)] assms(4)
    by (simp add: get_player_stats_def run_step_def q_player_stats_def comp_def)
qed

text \<open>
  C20. PUT /players/:id/ with a name that is not an array or object, for an id no
  player has, changes nothing and still answers "Player Details Updated": there
  is no existence check.
\<close>

theorem put_player_unknown_id:
  assumes "\<forall>p \<in> set (player_details db). \<not> player_key (bind_value (param req ''playerId'')) p"
    and "js_get (req_body req) ''playerName'' = Inr name" "scalar name"
  shows "run_step (put_player req) db = (db, Sent (RText ''Player Details Updated''))"
  using run_put_player [OF assms(2,3)] update_player_name_no_key assms(1) by simp

text \<open>
  C21. A PUT /players/:id/ whose body has no playerName field erases the player's
  name: undefined is bound as NULL, and a following GET returns playerName null.
\<close>

theorem put_player_without_name:
  assumes "wf_db db" "p \<in> set (player_details db)"
    and "player_key (bind_value (param req ''playerId'')) p"
    and "req_body req = Obj fs" "map_of fs ''playerName'' = None"
    and "param req' ''playerId'' = param req ''playerId''"
  shows "snd (run_step (put_player req) db) = Sent (RText ''Player Details Updated'') \<and>
         snd (run_step (get_player req') (fst (run_step (put_player req) db))) =
           Sent (RJson (JObject [(''playerId'', JNumber (js_double (pd_player_id p))), (''playerName'', JNull)]))"
proof -
  let ?v = "bind_value (param req ''playerId'')"
  have "js_get (req_body req) ''playerName'' = Inr Undef"
    using assms(4,5) by (simp add: field_def)
  then have put: "run_step (put_player req) db =
      (update_player_name SNull ?v db, Sent (RText ''Player Details Updated''))"
    by (simp add: run_put_player scalar_def)
  with db_get_player_after_update [OF assms(1,2) scalar_param assms(3), of SNull] assms(6) show ?thesis
    by (simp add: get_player_def run_step_def player_response_def)
qed

text \<open>
  C12. A PUT whose playerName is a two-element array [a, b] answers "Player
  Details Updated" and sets the name a on the player whose id is b, whatever
  player the path names: the driver binds the array's elements to the two
  parameters, and the path's playerId is never bound.
\<close>

theorem put_player_array_name:
  assumes "js_get (req_body req) ''playerName'' = Inr (Arr [a, b])"
  shows "run_step (put_player req) db =
           (update_player_name (bind_value a) (bind_value b) db, Sent (RText ''Player Details Updated''))"
  using run_put_player_array [OF assms] by simp

text \<open>
  C22. A PUT whose playerName is an array with a defined element after the second
  fails to bind (SQLITE_RANGE): the database is unchanged, the handler's promise
  rejects and no response is sent.
\<close>

theorem put_player_array_range:
  assumes "js_get (req_body req) ''playerName'' = Inr (Arr vs)" "list_ex (\<lambda>v. v \<noteq> Undef) (drop 2 vs)"
  shows "run_step (put_player req) db = (db, Rejected range_error)"
  using run_put_player_array [OF assms(1)] assms(2) by (simp add: bind_positional_def)

text \<open>
  C23. A PUT whose playerName is the object {"1": a, "2": b}, its keys in either
  order, binds a and b to the two parameters by index: like a two-element array,
  it renames the player b selects to a, whatever the path names.
\<close>

theorem put_player_object_name:
  assumes "js_get (req_body req) ''playerName'' = Inr (Obj fs)"
    and "distinct (map fst fs)" "set fs = {(''1'', a), (''2'', b)}"
  shows "run_step (put_player req) db =
           (update_player_name (bind_value a) (bind_value b) db, Sent (RText ''Player Details Updated''))"
proof -
  have "distinct fs" using assms(2) by (simp add: distinct_map)
  then have "mset fs = mset [(''1'', a), (''2'', b)]"
    using set_eq_iff_mset_eq_distinct [of fs "[(''1'', a), (''2'', b)]"] assms(3) by simp
  then have "fs = [(''1'', a), (''2'', b)] \<or> fs = [(''2'', b), (''1'', a)]"
    by (intro mset_eq_pair) simp
  then have "bind_named 2 fs = Inr [bind_value a, bind_value b]"
    using bind_named_two by blast
  with run_put_player_object [OF assms(1)] show ?thesis by simp
qed

text \<open>
  C24. A PUT whose playerName is an object with a defined property whose key is
  neither 1 nor 2 as a number (a name such as "name", or any other index) fails
  to bind (SQLITE_RANGE): nothing changes and no response is sent.
\<close>

theorem put_player_named_range:
  assumes "js_get (req_body req) ''playerName'' = Inr (Obj fs)"
    and "(k, v) \<in> set fs" "v \<noteq> Undef" "key_position k \<notin> {1, 2}"
  shows "run_step (put_player req) db = (db, Rejected range_error)"
  using run_put_player_object [OF assms(1)] bind_named_range [OF assms(2-4)] by simp

text \<open>
  C17. GET /matches/:id/ for an id no match has rejects with a TypeError (reading
  match_id of undefined) and sends no response, as API 2 does for players.
\<close>

theorem get_match_missing:
  assumes "\<forall>m \<in> set (match_details db). \<not> sql_int_eq (md_match_id m) (bind_value (param req ''matchId''))"
  shows "run_step (get_match req) db =
           (db, Rejected (TypeError (cannot_read ''undefined'' ''match_id'')))"
  using assms by (simp add: get_match_def run_step_def q_match_by_id_def filter_empty_conv)

text \<open>
  C25. GET /players/:id/matches for an id that no score row refers to (a player
  without matches, or no player at all) answers the empty JSON array: unlike
  API 2, the list endpoint does not tell a missing player apart.
\<close>

theorem get_player_matches_none:
  assumes "\<forall>s \<in> set (player_match_score db). \<not> sql_int_eq (pms_player_id s) (bind_value (param req ''playerId''))"
  shows "run_step (get_player_matches req) db = (db, Sent (RJson (JArray [])))"
  using assms by (simp add: get_player_matches_def run_step_def q_player_matches_def)

subsection \<open>Witnesses\<close>

theorem put_then_get_witness:
  "snd (run_step (put_player \<lparr>req_params = [(''playerId'', ''7'')],
                               req_body = Obj [(''playerName'', Str ''Virat Kohli'')]\<rparr>) sample_db) =
     Sent (RText ''Player Details Updated'') \<and>
   snd (run_step (get_player \<lparr>req_params = [(''playerId'', ''7'')], req_body = Obj []\<rparr>)
          (fst (run_step (put_player \<lparr>req_params = [(''playerId'', ''7'')],
                                     req_body = Obj [(''playerName'', Str ''Virat Kohli'')]\<rparr>) sample_db))) =
     Sent (RJson (JObject [(''playerId'', JNumber 7), (''playerName'', JString ''Virat Kohli'')]))"
proof -
  let ?p = "\<lparr>pd_player_id = 7, pd_player_name = SText ''Virat''\<rparr>"
  let ?r = "\<lparr>req_params = [(''playerId'', ''7'')], req_body = Obj [(''playerName'', Str ''Virat Kohli'')]\<rparr>"
  let ?r' = "\<lparr>req_params = [(''playerId'', ''7'')], req_body = Obj []\<rparr>"
  have "?p \<in> set (player_details sample_db)" by (simp add: sample_db_def)
  moreover have "player_key (bind_value (param ?r ''playerId'')) ?p"
    by (simp add: param_def player_key_def affinity_defs)
  moreover have "js_get (req_body ?r) ''playerName'' = Inr (Str ''Virat Kohli'')" by simp
  moreover have "param ?r' ''playerId'' = param ?r ''playerId''" by (simp add: param_def)
  ultimately show ?thesis
    using put_then_get [OF wf_sample_db] by simp
qed

theorem get_player_stats_totals_witness:
  "run_step (get_player_stats \<lparr>req_params = [(''playerId'', ''7'')], req_body = Obj []\<rparr>) sample_db =
     (sample_db, Sent (RJson (JObject [(''playerId'', JNumber 7), (''playerName'', JString ''Virat''),
        (''totalScore'', JNumber 80), (''totalFours'', JNumber 6), (''totalSixes'', JNumber 1)])))"
proof -
  let ?p = "\<lparr>pd_player_id = 7, pd_player_name = SText ''Virat''\<rparr>"
  let ?r = "\<lparr>req_params = [(''playerId'', ''7'')], req_body = Obj []\<rparr>"
  let ?sc = "filter (\<lambda>s. pms_player_id s = pd_player_id ?p) (player_match_score sample_db)"
  have "?p \<in> set (player_details sample_db)" by (simp add: sample_db_def)
  moreover have "player_key (bind_value (param ?r ''playerId'')) ?p"
    by (simp add: param_def player_key_def affinity_defs)
  moreover have "?sc \<noteq> []" "\<forall>s \<in> set ?sc. 0 \<le> pms_score s \<and> 0 \<le> pms_fours s \<and> 0 \<le> pms_sixes s"
    "sum_list (map pms_score ?sc) \<le> i64_max" "sum_list (map pms_fours ?sc) \<le> i64_max"
    "sum_list (map pms_sixes ?sc) \<le> i64_max"
    by (simp_all add: sample_db_def i64_max_def)
  ultimately have "run_step (get_player_stats ?r) sample_db =
    (sample_db, Sent (RJson (JObject [(''playerId'', JNumber 7), (''playerName'', JString ''Virat''),
        (''totalScore'', JNumber (js_double (sum_list (map pms_score ?sc)))),
        (''totalFours'', JNumber (js_double (sum_list (map pms_fours ?sc)))),
        (''totalSixes'', JNumber (js_double (sum_list (map pms_sixes ?sc))))])))"
    using get_player_stats_totals [OF wf_sample_db, of ?p ?r ?sc] by simp
  then show ?thesis by (simp add: sample_db_def)
qed

theorem get_player_matches_mset_witness:
  "\<exists>js. run_step (get_player_matches \<lparr>req_params = [(''playerId'', ''7'')], req_body = Obj []\<rparr>) sample_db =
          (sample_db, Sent (RJson (JArray js))) \<and>
        mset js = {# JObject [(''matchId'', JNumber 1), (''match'', JString ''RR vs SRH''), (''year'', JNumber 2011)],
                     JObject [(''matchId'', JNumber 2), (''match'', JString ''SRH vs MI''), (''year'', JNumber 2012)] #}"
proof -
  let ?r = "\<lparr>req_params = [(''playerId'', ''7'')], req_body = Obj []\<rparr>"
  obtain js where run: "run_step (get_player_matches ?r) sample_db = (sample_db, Sent (RJson (JArray js)))"
    and ms: "mset js = image_mset (\<lambda>s. to_json (match_response (match_of sample_db (pms_match_id s))))
       (filter_mset (\<lambda>s. sql_int_eq (pms_player_id s) (bind_value (param ?r ''playerId'')))
          (mset (player_match_score sample_db)))"
    using get_player_matches_mset [OF wf_sample_db, of ?r] by blast
  from ms have "mset js = {# JObject [(''matchId'', JNumber 1), (''match'', JString ''RR vs SRH''), (''year'', JNumber 2011)],
                     JObject [(''matchId'', JNumber 2), (''match'', JString ''SRH vs MI''), (''year'', JNumber 2012)] #}"
    by (simp add: sample_db_def match_of_def param_def affinity_defs)
  with run show ?thesis by blast
qed

theorem get_match_players_mset_witness:
  "\<exists>js. run_step (get_match_players \<lparr>req_params = [(''matchId'', ''1'')], req_body = Obj []\<rparr>) sample_db =
          (sample_db, Sent (RJson (JArray js))) \<and>
        mset js = {# JObject [(''playerId'', JNumber 7), (''playerName'', JString ''Virat'')],
                     JObject [(''playerId'', JNumber 1), (''playerName'', JString ''Ram'')] #}"
proof -
  let ?r = "\<lparr>req_params = [(''matchId'', ''1'')], req_body = Obj []\<rparr>"
  obtain js where run: "run_step (get_match_players ?r) sample_db = (sample_db, Sent (RJson (JArray js)))"
    and ms: "mset js = image_mset (\<lambda>s. to_json (player_response (player_of sample_db (pms_player_id s))))
       (filter_mset (\<lambda>s. sql_int_eq (pms_match_id s) (bind_value (param ?r ''matchId'')))
          (mset (player_match_score sample_db)))"
    using get_match_players_mset [OF wf_sample_db, of ?r] by blast
  from ms have "mset js = {# JObject [(''playerId'', JNumber 7), (''playerName'', JString ''Virat'')],
                     JObject [(''playerId'', JNumber 1), (''playerName'', JString ''Ram'')] #}"
    by (simp add: sample_db_def player_of_def param_def affinity_defs)
  with run show ?thesis by blast
qed

theorem get_player_existing_witness:
  "run_step (get_player \<lparr>req_params = [(''playerId'', ''07'')], req_body = Obj []\<rparr>) sample_db =
     (sample_db, Sent (RJson (JObject [(''playerId'', JNumber 7), (''playerName'', JString ''Virat'')])))"
proof -
  let ?p = "\<lparr>pd_player_id = 7, pd_player_name = SText ''Virat''\<rparr>"
  have "?p \<in> set (player_details sample_db)" by (simp add: sample_db_def)
  moreover have "player_key (bind_value (param \<lparr>req_params = [(''playerId'', ''07'')], req_body = Obj []\<rparr> ''playerId'')) ?p"
    by (simp add: param_def player_key_def affinity_defs)
  ultimately show ?thesis using get_player_existing [OF wf_sample_db] by simp
qed

theorem get_player_missing_witness:
  "run_step (get_player \<lparr>req_params = [(''playerId'', ''9'')], req_body = Obj []\<rparr>) sample_db =
     (sample_db, Rejected (TypeError (cannot_read ''undefined'' ''player_id'')))"
proof -
  have "\<forall>p \<in> set (player_details sample_db).
          \<not> player_key (bind_value (param \<lparr>req_params = [(''playerId'', ''9'')], req_body = Obj []\<rparr> ''playerId'')) p"
    by (simp add: sample_db_def param_def player_key_def affinity_defs)
  then show ?thesis by (rule get_player_missing)
qed

theorem get_match_existing_witness:
  "run_step (get_match \<lparr>req_params = [(''matchId'', ''2'')], req_body = Obj []\<rparr>) sample_db =
     (sample_db, Sent (RJson (JObject [(''matchId'', JNumber 2), (''match'', JString ''SRH vs MI''),
                                       (''year'', JNumber 2012)])))"
proof -
  let ?m = "\<lparr>md_match_id = 2, md_match = ''SRH vs MI'', md_year = 2012\<rparr>"
  have "?m \<in> set (match_details sample_db)" by (simp add: sample_db_def)
  moreover have "sql_int_eq (md_match_id ?m) (bind_value (param \<lparr>req_params = [(''matchId'', ''2'')], req_body = Obj []\<rparr> ''matchId''))"
    by (simp add: param_def affinity_defs)
  ultimately show ?thesis using get_match_existing [OF wf_sample_db] by simp
qed

theorem get_player_stats_no_scores_witness:
  "run_step (get_player_stats \<lparr>req_params = [(''playerId'', ''3'')], req_body = Obj []\<rparr>) sample_db =
    (sample_db, Sent (RJson (JObject [(''playerId'', JNull), (''playerName'', JNull), (''totalScore'', JNull),
                                      (''totalFours'', JNull), (''totalSixes'', JNull)])))"
proof -
  have "\<forall>s \<in> set (player_match_score sample_db).
          \<not> sql_int_eq (pms_player_id s) (bind_value (param \<lparr>req_params = [(''playerId'', ''3'')], req_body = Obj []\<rparr> ''playerId''))"
    by (simp add: sample_db_def param_def affinity_defs)
  then show ?thesis by (rule get_player_stats_no_scores)
qed

theorem get_player_stats_overflow_witness:
  "run_step (get_player_stats \<lparr>req_params = [(''playerId'', ''7'')], req_body = Obj []\<rparr>)
     (sample_db\<lparr>player_match_score :=
        [\<lparr>pms_player_match_id = 1, pms_player_id = 7, pms_match_id = 1, pms_score = 9223372036854775807,
           pms_fours = 0, pms_sixes = 0\<rparr>,
         \<lparr>pms_player_match_id = 2, pms_player_id = 7, pms_match_id = 2, pms_score = 1,
           pms_fours = 0, pms_sixes = 0\<rparr>]\<rparr>) =
   (sample_db\<lparr>player_match_score :=
        [\<lparr>pms_player_match_id = 1, pms_player_id = 7, pms_match_id = 1, pms_score = 9223372036854775807,
           pms_fours = 0, pms_sixes = 0\<rparr>,
         \<lparr>pms_player_match_id = 2, pms_player_id = 7, pms_match_id = 2, pms_score = 1,
           pms_fours = 0, pms_sixes = 0\<rparr>]\<rparr>, Rejected (SqliteError ''integer overflow''))"
proof -
  let ?db = "sample_db\<lparr>player_match_score :=
        [\<lparr>pms_player_match_id = 1, pms_player_id = 7, pms_match_id = 1, pms_score = 9223372036854775807,
           pms_fours = 0, pms_sixes = 0\<rparr>,
         \<lparr>pms_player_match_id = 2, pms_player_id = 7, pms_match_id = 2, pms_score = 1,
           pms_fours = 0, pms_sixes = 0\<rparr>]\<rparr>"
  let ?p = "\<lparr>pd_player_id = 7, pd_player_name = SText ''Virat''\<rparr>"
  let ?r = "\<lparr>req_params = [(''playerId'', ''7'')], req_body = Obj []\<rparr>"
  let ?sc = "filter (\<lambda>s. pms_player_id s = pd_player_id ?p) (player_match_score ?db)"
  have wf: "wf_db ?db" by (simp add: wf_db_def sample_db_def)
  have p: "?p \<in> set (player_details ?db)" by (simp add: sample_db_def)
  have k: "player_key (bind_value (param ?r ''playerId'')) ?p"
    by (simp add: param_def player_key_def affinity_defs)
  have "2 \<in> {1..length ?sc}" "\<not> in_i64 (sum_list (take 2 (map pms_score ?sc)))"
    by (simp_all add: in_i64_def i64_max_def)
  then have "\<not> (\<forall>i \<in> {1..length ?sc}. in_i64 (sum_list (take i (map pms_score ?sc))))" by blast
  with wf p k show ?thesis by (rule get_player_stats_overflow [OF _ _ _ refl])
qed

theorem put_player_unknown_id_witness:
  "run_step (put_player \<lparr>req_params = [(''playerId'', ''9'')], req_body = Obj [(''playerName'', Str ''X'')]\<rparr>)
     sample_db = (sample_db, Sent (RText ''Player Details Updated''))"
proof -
  have "\<forall>p \<in> set (player_details sample_db).
          \<not> player_key (bind_value (param \<lparr>req_params = [(''playerId'', ''9'')], req_body = Obj [(''playerName'', Str ''X'')]\<rparr> ''playerId'')) p"
    by (simp add: sample_db_def param_def player_key_def affinity_defs)
  then show ?thesis by (rule put_player_unknown_id) simp+
qed

theorem put_player_without_name_witness:
  "snd (run_step (put_player \<lparr>req_params = [(''playerId'', ''7'')], req_body = Obj []\<rparr>) sample_db) =
     Sent (RText ''Player Details Updated'') \<and>
   snd (run_step (get_player \<lparr>req_params = [(''playerId'', ''7'')], req_body = Obj []\<rparr>)
          (fst (run_step (put_player \<lparr>req_params = [(''playerId'', ''7'')], req_body = Obj []\<rparr>) sample_db))) =
     Sent (RJson (JObject [(''playerId'', JNumber 7), (''playerName'', JNull)]))"
proof -
  let ?p = "\<lparr>pd_player_id = 7, pd_player_name = SText ''Virat''\<rparr>"
  let ?r = "\<lparr>req_params = [(''playerId'', ''7'')], req_body = Obj []\<rparr>"
  have "?p \<in> set (player_details sample_db)" by (simp add: sample_db_def)
  moreover have "player_key (bind_value (param ?r ''playerId'')) ?p"
    by (simp add: param_def player_key_def affinity_defs)
  ultimately show ?thesis
    using put_player_without_name [OF wf_sample_db, of ?p ?r "[]" ?r] by simp
qed

theorem get_match_missing_witness:
  "run_step (get_match \<lparr>req_params = [(''matchId'', ''5'')], req_body = Obj []\<rparr>) sample_db =
     (sample_db, Rejected (TypeError (cannot_read ''undefined'' ''match_id'')))"
proof -
  have "\<forall>m \<in> set (match_details sample_db).
          \<not> sql_int_eq (md_match_id m) (bind_value (param \<lparr>req_params = [(''matchId'', ''5'')], req_body = Obj []\<rparr> ''matchId''))"
    by (simp add: sample_db_def param_def affinity_defs)
  then show ?thesis by (rule get_match_missing)
qed

theorem get_player_matches_none_witness:
  "run_step (get_player_matches \<lparr>req_params = [(''playerId'', ''9'')], req_body = Obj []\<rparr>) sample_db =
     (sample_db, Sent (RJson (JArray [])))"
proof -
  have "\<forall>s \<in> set (player_match_score sample_db).
          \<not> sql_int_eq (pms_player_id s) (bind_value (param \<lparr>req_params = [(''playerId'', ''9'')], req_body = Obj []\<rparr> ''playerId''))"
    by (simp add: sample_db_def param_def affinity_defs)
  then show ?thesis by (rule get_player_matches_none)
qed

theorem put_player_array_name_witness:
  "run_step (put_player \<lparr>req_params = [(''playerId'', ''9'')],
                         req_body = Obj [(''playerName'', Arr [Str ''X'', Str ''7''])]\<rparr>) sample_db =
     (sample_db\<lparr>player_details := [\<lparr>pd_player_id = 1, pd_player_name = SText ''Ram''\<rparr>,
                                   \<lparr>pd_player_id = 3, pd_player_name = SText ''Ravi''\<rparr>,
                                   \<lparr>pd_player_id = 7, pd_player_name = SText ''X''\<rparr>]\<rparr>,
      Sent (RText ''Player Details Updated''))"
  using put_player_array_name [of "\<lparr>req_params = [(''playerId'', ''9'')],
                         req_body = Obj [(''playerName'', Arr [Str ''X'', Str ''7''])]\<rparr>" "Str ''X''" "Str ''7''" sample_db]
  by (simp add: update_player_name_def sample_db_def player_key_def affinity_defs)

theorem put_player_array_range_witness:
  "run_step (put_player \<lparr>req_params = [(''playerId'', ''7'')],
                         req_body = Obj [(''playerName'', Arr [Str ''X'', Str ''7'', Null])]\<rparr>) sample_db =
     (sample_db, Rejected (SqliteError ''column index out of range''))"
  using put_player_array_range [of "\<lparr>req_params = [(''playerId'', ''7'')],
                         req_body = Obj [(''playerName'', Arr [Str ''X'', Str ''7'', Null])]\<rparr>"
                         "[Str ''X'', Str ''7'', Null]" sample_db]
  by (simp add: range_error_def)

theorem put_player_object_name_witness:
  "run_step (put_player \<lparr>req_params = [(''playerId'', ''9'')],
        req_body = Obj [(''playerName'', Obj [(''2'', Str ''7''), (''1'', Str ''X'')])]\<rparr>) sample_db =
     (sample_db\<lparr>player_details := [\<lparr>pd_player_id = 1, pd_player_name = SText ''Ram''\<rparr>,
                                   \<lparr>pd_player_id = 3, pd_player_name = SText ''Ravi''\<rparr>,
                                   \<lparr>pd_player_id = 7, pd_player_name = SText ''X''\<rparr>]\<rparr>,
      Sent (RText ''Player Details Updated''))"
  using put_player_object_name [of "\<lparr>req_params = [(''playerId'', ''9'')],
        req_body = Obj [(''playerName'', Obj [(''2'', Str ''7''), (''1'', Str ''X'')])]\<rparr>"
        "[(''2'', Str ''7''), (''1'', Str ''X'')]" "Str ''X''" "Str ''7''" sample_db]
  by (simp add: update_player_name_def sample_db_def player_key_def affinity_defs insert_commute)

theorem put_player_named_range_witness:
  "run_step (put_player \<lparr>req_params = [(''playerId'', ''7'')],
        req_body = Obj [(''playerName'', Obj [(''name'', Str ''X'')])]\<rparr>) sample_db =
     (sample_db, Rejected (SqliteError ''column index out of range''))"
proof -
  have "key_position ''name'' = 0" by code_simp
  then show ?thesis
    using put_player_named_range [of "\<lparr>req_params = [(''playerId'', ''7'')],
        req_body = Obj [(''playerName'', Obj [(''name'', Str ''X'')])]\<rparr>"
        "[(''name'', Str ''X'')]" "''name''" "Str ''X''" sample_db]
    by (simp add: range_error_def)
qed

end
