(* ===== verification/Router.thy ===== *)
theory Router
  imports Handlers
begin

text \<open>
  Express routing of \<open>src/app.js\<close>: the seven \<open>app.get\<close>/\<open>app.put\<close>
  registrations form a route table, tried in registration order; a request is
  handled by the first route whose method and path pattern match, and Express's
  final handler answers 404 when none does. Express compiles each pattern with
  path-to-regexp in its default mode: literal segments compare case-insensitively
  (ASCII letters here), a \<open>:name\<close> segment matches one non-empty segment without
  \<open>/\<close>, and one trailing \<open>/\<close> is optional. A GET route also answers HEAD.
  The request path is the URL's pathname (the query string is not part of it);
  parameter values are taken as they appear in the path. Express percent-decodes
  a parameter value, and answers 400 when that fails, for any method whose path
  matches the pattern; the model leaves decoding out, so it agrees with Express on
  parameter segments without \<open>%\<close>, and the theorems that name a parameter
  assume that. \<open>express.json()\<close> has already parsed the body (\<open>{}\<close> when
  there is none).
\<close>

datatype http_method = GET | HEAD | PUT | POST | DELETE | PATCH

datatype seg = Lit string | Param string

record route =
  r_method :: http_method
  r_pattern :: "seg list"
  r_handler :: "request \<Rightarrow> step"

definition routes :: "route list" where
  "routes = [
     \<lparr>r_method = GET, r_pattern = [Lit ''players''], r_handler = get_players\<rparr>,
     \<lparr>r_method = GET, r_pattern = [Lit ''players'', Param ''playerId''], r_handler = get_player\<rparr>,
     \<lparr>r_method = PUT, r_pattern = [Lit ''players'', Param ''playerId''], r_handler = put_player\<rparr>,
     \<lparr>r_method = GET, r_pattern = [Lit ''matches'', Param ''matchId''], r_handler = get_match\<rparr>,
     \<lparr>r_method = GET, r_pattern = [Lit ''players'', Param ''playerId'', Lit ''matches''],
        r_handler = get_player_matches\<rparr>,
     \<lparr>r_method = GET, r_pattern = [Lit ''matches'', Param ''matchId'', Lit ''players''],
        r_handler = get_match_players\<rparr>,
     \<lparr>r_method = GET, r_pattern = [Lit ''players'', Param ''playerId'', Lit ''playerScores''],
        r_handler = get_player_stats\<rparr>]"

subsection \<open>Path matching\<close>

definition lower_char :: "char \<Rightarrow> char" where
  "lower_char c = (if (65::nat) \<le> of_char c \<and> of_char c \<le> (90::nat) then char_of (of_char c + (32::nat)) else c)"

definition lower :: "string \<Rightarrow> string" where
  "lower s = map lower_char s"

fun split_slash :: "string \<Rightarrow> string list" where
  "split_slash [] = [[]]"
| "split_slash (c # cs) =
     (let r = split_slash cs in if c = CHR ''/'' then [] # r else (c # hd r) # tl r)"

text \<open>The segments of a pathname: the leading \<open>/\<close> and one trailing \<open>/\<close> removed.\<close>

definition path_segments :: "string \<Rightarrow> string list option" where
  "path_segments path =
     (if path = [] \<or> hd path \<noteq> CHR ''/'' then None
      else let p = tl path; p' = (if p \<noteq> [] \<and> last p = CHR ''/'' then butlast p else p)
           in Some (split_slash p'))"

fun match_segs :: "seg list \<Rightarrow> string list \<Rightarrow> (string \<times> string) list option" where
  "match_segs [] ss = (if ss = [] then Some [] else None)"
| "match_segs (p # ps) ss =
     (case ss of
        [] \<Rightarrow> None
      | s # ss' \<Rightarrow>
          (case p of
             Lit l \<Rightarrow> if lower s = lower l then match_segs ps ss' else None
           | Param n \<Rightarrow> if s = [] then None else map_option (Cons (n, s)) (match_segs ps ss')))"

definition method_matches :: "http_method \<Rightarrow> http_method \<Rightarrow> bool" where
  "method_matches rm m \<longleftrightarrow> rm = m \<or> (rm = GET \<and> m = HEAD)"

definition route_matches :: "route \<Rightarrow> http_method \<Rightarrow> string \<Rightarrow> (string \<times> string) list option" where
  "route_matches r m path =
     (if method_matches (r_method r) m
      then (case path_segments path of None \<Rightarrow> None | Some ss \<Rightarrow> match_segs (r_pattern r) ss)
      else None)"

fun first_route :: "route list \<Rightarrow> http_method \<Rightarrow> string \<Rightarrow> (route \<times> (string \<times> string) list) option" where
  "first_route [] m path = None"
| "first_route (r # rs) m path =
     (case route_matches r m path of Some ps \<Rightarrow> Some (r, ps) | None \<Rightarrow> first_route rs m path)"

definition method_name :: "http_method \<Rightarrow> string" where
  "method_name m = (case m of GET \<Rightarrow> ''GET'' | HEAD \<Rightarrow> ''HEAD'' | PUT \<Rightarrow> ''PUT''
     | POST \<Rightarrow> ''POST'' | DELETE \<Rightarrow> ''DELETE'' | PATCH \<Rightarrow> ''PATCH'')"

text \<open>The application: dispatch to the first matching route, else 404.\<close>

definition app :: "http_method \<Rightarrow> string \<Rightarrow> jsval \<Rightarrow> step" where
  "app m path body =
     (case first_route routes m path of
        None \<Rightarrow> Done (Sent (RNotFound (''Cannot '' @ method_name m @ '' '' @ path)))
      | Some (r, ps) \<Rightarrow> r_handler r \<lparr>req_params = ps, req_body = body\<rparr>)"

subsection \<open>Path lemmas\<close>

lemma lower_route_literals [simp]:
  "lower ''players'' = ''players''" "lower ''matches'' = ''matches''"
  "lower ''playerScores'' = ''playerscores''"
  by code_simp+

lemma split_slash_no_slash: "CHR ''/'' \<notin> set a \<Longrightarrow> split_slash a = [a]"
  by (induction a) (auto simp: Let_def)

lemma split_slash_append:
  "CHR ''/'' \<notin> set a \<Longrightarrow> split_slash (a @ CHR ''/'' # b) = a # split_slash b"
  by (induction a) (auto simp: Let_def)

lemma path_segments_slash:
  "path_segments (CHR ''/'' # p) =
     Some (split_slash (if p \<noteq> [] \<and> last p = CHR ''/'' then butlast p else p))"
  by (simp add: path_segments_def)

lemma last_no_slash: "s \<noteq> [] \<Longrightarrow> CHR ''/'' \<notin> set s \<Longrightarrow> last s \<noteq> CHR ''/''"
  by (metis last_in_set)

lemma match_segs_length: "match_segs ps ss = Some x \<Longrightarrow> length ss = length ps"
  by (induction ps ss arbitrary: x rule: match_segs.induct) (auto split: list.splits seg.splits if_splits)

lemma match_segs_length_None: "length ss \<noteq> length ps \<Longrightarrow> match_segs ps ss = None"
  using match_segs_length by fastforce

lemma first_route_None: "(\<forall>r \<in> set rs. route_matches r m path = None) \<Longrightarrow> first_route rs m path = None"
  by (induction rs) auto

lemmas route_defs = app_def routes_def route_matches_def method_matches_def

text \<open>The two player routes the API's update-then-read sequence uses.\<close>

lemma app_player_routes:
  assumes "s \<noteq> []" "CHR ''/'' \<notin> set s"
  shows "app PUT (''/players/'' @ s) b = put_player \<lparr>req_params = [(''playerId'', s)], req_body = b\<rparr>"
    and "app GET (''/players/'' @ s @ ''/'') b = get_player \<lparr>req_params = [(''playerId'', s)], req_body = b\<rparr>"
  using assms last_no_slash [OF assms]
  by (simp_all add: route_defs path_segments_slash split_slash_append split_slash_no_slash
        butlast_append last_append)

subsection \<open>Properties of the route table\<close>

text \<open>
  C5. Routing: every endpoint of the API is reached by its path, with and without
  a trailing slash, and its handler receives the path segment as its only
  parameter, under the name the route pattern gives it; an earlier route never
  captures a later route's path. The segment is any non-empty text without
  \<open>/\<close> and without \<open>%\<close>, on which Express's percent-decoding of
  parameters is the identity.
\<close>

theorem route_table_dispatch:
  assumes "s \<noteq> []" "CHR ''/'' \<notin> set s" "CHR ''%'' \<notin> set s"
  shows "app GET ''/players'' b = get_players \<lparr>req_params = [], req_body = b\<rparr> \<and>
    app GET ''/players/'' b = get_players \<lparr>req_params = [], req_body = b\<rparr> \<and>
    app GET (''/players/'' @ s) b = get_player \<lparr>req_params = [(''playerId'', s)], req_body = b\<rparr> \<and>
    app GET (''/players/'' @ s @ ''/'') b = get_player \<lparr>req_params = [(''playerId'', s)], req_body = b\<rparr> \<and>
    app PUT (''/players/'' @ s) b = put_player \<lparr>req_params = [(''playerId'', s)], req_body = b\<rparr> \<and>
    app PUT (''/players/'' @ s @ ''/'') b = put_player \<lparr>req_params = [(''playerId'', s)], req_body = b\<rparr> \<and>
    app GET (''/matches/'' @ s) b = get_match \<lparr>req_params = [(''matchId'', s)], req_body = b\<rparr> \<and>
    app GET (''/matches/'' @ s @ ''/'') b = get_match \<lparr>req_params = [(''matchId'', s)], req_body = b\<rparr> \<and>
    app GET (''/players/'' @ s @ ''/matches'') b =
      get_player_matches \<lparr>req_params = [(''playerId'', s)], req_body = b\<rparr> \<and>
    app GET (''/players/'' @ s @ ''/matches/'') b =
      get_player_matches \<lparr>req_params = [(''playerId'', s)], req_body = b\<rparr> \<and>
    app GET (''/matches/'' @ s @ ''/players'') b =
      get_match_players \<lparr>req_params = [(''matchId'', s)], req_body = b\<rparr> \<and>
    app GET (''/matches/'' @ s @ ''/players/'') b =
      get_match_players \<lparr>req_params = [(''matchId'', s)], req_body = b\<rparr> \<and>
    app GET (''/players/'' @ s @ ''/playerScores'') b =
      get_player_stats \<lparr>req_params = [(''playerId'', s)], req_body = b\<rparr> \<and>
    app GET (''/players/'' @ s @ ''/playerScores/'') b =
      get_player_stats \<lparr>req_params = [(''playerId'', s)], req_body = b\<rparr>"
  using assms(1,2) last_no_slash [OF assms(1,2)]
  by (simp add: route_defs path_segments_slash split_slash_append split_slash_no_slash
        butlast_append last_append)

text \<open>
  C28. The routes are disjoint: for every method and path at most one route of
  the table matches, so the registration order of app.js never decides which
  handler runs.
\<close>

theorem dispatch_unique: "length (filter (\<lambda>r. route_matches r m path \<noteq> None) routes) \<le> 1"
  unfolding routes_def route_matches_def method_matches_def
  by (auto split: option.splits list.splits seg.splits if_splits)

text \<open>
  C29. The application registers no POST, DELETE or PATCH route: such a request
  is answered by Express's 404 handler with the message "Cannot METHOD path",
  and no handler runs.
\<close>

theorem unregistered_method_404:
  assumes "m \<in> {POST, DELETE, PATCH}"
  shows "app m path b = Done (Sent (RNotFound (''Cannot '' @ method_name m @ '' '' @ path)))"
  using assms by (auto simp: route_defs)

text \<open>
  C30. A path that no route pattern can match, because it has more than three
  segments or its first segment names neither players nor matches in any case,
  is answered by Express's 404 handler with "Cannot METHOD path", for every method.
\<close>

theorem unmatched_path_404:
  assumes "path_segments path = Some ss"
    and "3 < length ss \<or> (ss \<noteq> [] \<and> lower (hd ss) \<noteq> ''players'' \<and> lower (hd ss) \<noteq> ''matches'')"
  shows "app m path b = Done (Sent (RNotFound (''Cannot '' @ method_name m @ '' '' @ path)))"
proof -
  have "\<forall>r \<in> set routes. match_segs (r_pattern r) ss = None"
  proof
    fix r assume r: "r \<in> set routes"
    show "match_segs (r_pattern r) ss = None"
    proof (cases "3 < length ss")
      case True
      with r show ?thesis by (intro match_segs_length_None) (auto simp: routes_def)
    next
      case False
      with assms(2) obtain s ss' where "ss = s # ss'" "lower s \<noteq> ''players''" "lower s \<noteq> ''matches''"
        by (cases ss) auto
      with r show ?thesis by (auto simp: routes_def)
    qed
  qed
  then have "first_route routes m path = None"
    by (intro first_route_None) (simp add: route_matches_def assms(1))
  then show ?thesis by (simp add: app_def)
qed

subsection \<open>Witnesses\<close>

theorem route_table_dispatch_witness:
  "app GET ''/players/7/matches'' (Obj []) =
     get_player_matches \<lparr>req_params = [(''playerId'', ''7'')], req_body = Obj []\<rparr> \<and>
   app PUT ''/players/7'' (Obj []) =
     put_player \<lparr>req_params = [(''playerId'', ''7'')], req_body = Obj []\<rparr> \<and>
   app GET ''/matches/2/players/'' (Obj []) =
     get_match_players \<lparr>req_params = [(''matchId'', ''2'')], req_body = Obj []\<rparr>"
  using route_table_dispatch [of "''7''" "Obj []"] route_table_dispatch [of "''2''" "Obj []"] by simp

theorem unregistered_method_404_witness:
  "app POST ''/players/'' (Obj []) = Done (Sent (RNotFound ''Cannot POST /players/''))"
  using unregistered_method_404 [of POST "''/players/''" "Obj []"] by (simp add: method_name_def)

theorem unmatched_path_404_witness:
  "app GET ''/teams/1'' (Obj []) = Done (Sent (RNotFound ''Cannot GET /teams/1''))"
proof -
  have "path_segments ''/teams/1'' = Some [''teams'', ''1'']" by (simp add: path_segments_def)
  moreover have "lower ''teams'' = ''teams''" by code_simp
  ultimately show ?thesis using unmatched_path_404 [of "''/teams/1''" "[''teams'', ''1'']" GET "Obj []"]
    by (simp add: method_name_def)
qed

end
