(* ===== verification/Server.thy ===== *)
theory Server
  imports Router
begin

text \<open>
  The running service of \<open>src/app.js\<close>: the bootstrap \<open>initializeDBAndServer\<close>
  (lines 13 to 28) and the Node.js event loop that interleaves the handlers of
  concurrent requests. A request runs synchronously up to its single \<open>await\<close>,
  where its driver call is queued (\<open>el_waiting\<close>); the driver executes queued
  calls one at a time, in any order (node-sqlite3 in its default parallel mode
  gives no order between calls of different requests), each atomically on the
  database, and the settled promise is queued (\<open>el_resolved\<close>); later the event
  loop resumes the handler, whose continuation sends the response (\<open>el_done\<close>).
  An interleaving is an explicit list of events; \<open>serial\<close> runs whole requests
  one after another, and the invariant \<open>loop_inv\<close> relates the two.
\<close>

record evloop =
  el_db :: database
  el_next :: nat
  el_arrived :: "(nat \<times> step) list"
  el_waiting :: "(nat \<times> db_call \<times> (jsval \<Rightarrow> outcome)) list"
  el_resolved :: "(nat \<times> (js_error + jsval) \<times> (jsval \<Rightarrow> outcome)) list"
  el_done :: "(nat \<times> outcome) list"
  el_trace :: "(nat \<times> step) list"

definition loop_init :: "database \<Rightarrow> evloop" where
  "loop_init d = \<lparr>el_db = d, el_next = 0, el_arrived = [], el_waiting = [], el_resolved = [],
     el_done = [], el_trace = []\<rparr>"

text \<open>The continuation of an awaited call, run when its promise has settled.\<close>

definition settle :: "js_error + jsval \<Rightarrow> (jsval \<Rightarrow> outcome) \<Rightarrow> outcome" where
  "settle r k = (case r of Inl e \<Rightarrow> Rejected e | Inr v \<Rightarrow> k v)"

definition del_at :: "nat \<Rightarrow> 'a list \<Rightarrow> 'a list" where
  "del_at i xs = take i xs @ drop (Suc i) xs"

datatype event = Arrive http_method string jsval | Exec nat | Resume nat

text \<open>
  One event of the loop: a request arrives and runs to its \<open>await\<close> (or to its
  end); the driver executes the \<open>i\<close>-th queued call; the loop resumes the
  \<open>i\<close>-th settled handler. An event that names no queued entry is not enabled.
\<close>

fun loop_event :: "event \<Rightarrow> evloop \<Rightarrow> evloop option" where
  "loop_event (Arrive m path b) l =
     (let n = el_next l; st = app m path b; l1 = l\<lparr>el_next := Suc n, el_arrived := el_arrived l @ [(n, st)]\<rparr>
      in Some (case st of
           Done out \<Rightarrow> l1\<lparr>el_done := el_done l @ [(n, out)], el_trace := el_trace l @ [(n, st)]\<rparr>
         | Await c k \<Rightarrow> l1\<lparr>el_waiting := el_waiting l @ [(n, c, k)]\<rparr>))"
| "loop_event (Exec i) l =
     (if i < length (el_waiting l) then
        (case el_waiting l ! i of (n, c, k) \<Rightarrow>
          (case exec_call c (el_db l) of (d', r) \<Rightarrow>
            Some (l\<lparr>el_db := d', el_waiting := del_at i (el_waiting l),
                    el_resolved := el_resolved l @ [(n, r, k)],
                    el_trace := el_trace l @ [(n, Await c k)]\<rparr>)))
      else None)"
| "loop_event (Resume i) l =
     (if i < length (el_resolved l) then
        (case el_resolved l ! i of (n, r, k) \<Rightarrow>
          Some (l\<lparr>el_resolved := del_at i (el_resolved l), el_done := el_done l @ [(n, settle r k)]\<rparr>))
      else None)"

fun run_events :: "event list \<Rightarrow> evloop \<Rightarrow> evloop option" where
  "run_events [] l = Some l"
| "run_events (e # es) l = (case loop_event e l of None \<Rightarrow> None | Some l' \<Rightarrow> run_events es l')"

text \<open>Sequential execution: each request runs to completion before the next starts.\<close>

fun serial :: "database \<Rightarrow> (nat \<times> step) list \<Rightarrow> database \<times> (nat \<times> outcome) list" where
  "serial d [] = (d, [])"
| "serial d ((n, st) # ts) =
     (let (d1, out) = run_step st d; (d2, outs) = serial d1 ts in (d2, (n, out) # outs))"

text \<open>The responses sent, or determined by a settled promise and sent when resumed.\<close>

definition served :: "evloop \<Rightarrow> (nat \<times> outcome) set" where
  "served l = set (el_done l) \<union> set (map (\<lambda>(n, r, k). (n, settle r k)) (el_resolved l))"

definition loop_inv :: "database \<Rightarrow> evloop \<Rightarrow> bool" where
  "loop_inv d0 l \<longleftrightarrow>
     fst (serial d0 (el_trace l)) = el_db l \<and>
     set (snd (serial d0 (el_trace l))) = served l \<and>
     mset (el_trace l) + mset (map (\<lambda>(n, c, k). (n, Await c k)) (el_waiting l)) = mset (el_arrived l) \<and>
     mset (map fst (el_done l)) + mset (map fst (el_resolved l)) = mset (map fst (el_trace l)) \<and>
     map fst (el_arrived l) = [0..<el_next l]"

subsection \<open>The bootstrap\<close>

text \<open>
  \<open>let db = null\<close>; \<open>initializeDBAndServer\<close> awaits \<open>open(...)\<close>: on success it
  assigns the database and only then calls \<open>app.listen(3000)\<close>, so no request is
  accepted before; on failure it logs the error and calls \<open>process.exit(1)\<close>.
\<close>

datatype server = Booting | Listening evloop | Exited int

inductive server_step :: "server \<Rightarrow> server \<Rightarrow> bool" where
  open_ok: "server_step Booting (Listening (loop_init d))"
| open_fail: "server_step Booting (Exited 1)"
| serve: "loop_event e l = Some l' \<Longrightarrow> server_step (Listening l) (Listening l')"

inductive_cases server_step_ExitedE: "server_step (Exited c) s"
inductive_cases server_step_ListeningE: "server_step (Listening l) s"

text \<open>
  A sample interleaving on the sample database: a PUT renaming player 7 arrives
  before a GET of player 7, but the driver executes the GET's query first.
\<close>

definition put_get_schedule :: "event list" where
  "put_get_schedule = [Arrive PUT ''/players/7'' (Obj [(''playerName'', Str ''Kohli'')]),
     Arrive GET ''/players/7'' (Obj []), Exec 1, Exec 0, Resume 1, Resume 0]"

text \<open>
  Two concurrent PUTs of player 7: the second to arrive has its statement executed
  first, so the first to arrive writes last.
\<close>

definition two_puts_schedule :: "event list" where
  "two_puts_schedule = [Arrive PUT ''/players/7'' (Obj [(''playerName'', Str ''Kohli'')]),
     Arrive PUT ''/players/7'' (Obj [(''playerName'', Str ''Virat'')]), Exec 1, Exec 0, Resume 0, Resume 0]"

subsection \<open>Sequential runs and the queues\<close>

lemma serial_append:
  "serial d (xs @ ys) = (let (d1, o1) = serial d xs; (d2, o2) = serial d1 ys in (d2, o1 @ o2))"
  by (induction xs arbitrary: d) (auto simp: Let_def split: prod.splits)

lemma serial_snoc [simp]:
  "serial d (xs @ [(n, st)]) =
     (fst (run_step st (fst (serial d xs))), snd (serial d xs) @ [(n, snd (run_step st (fst (serial d xs))))])"
  by (simp add: serial_append split_def Let_def)

lemma run_step_Await: "run_step (Await c k) d = (fst (exec_call c d), settle (snd (exec_call c d)) k)"
  by (simp add: run_step_def settle_def split_def Let_def)

lemma run_step_Done [simp]: "run_step (Done out) d = (d, out)"
  by (simp add: run_step_def)

lemma del_at_map: "map f (del_at i xs) = del_at i (map f xs)"
  by (simp add: del_at_def take_map drop_map)

lemma mset_del_at: "i < length xs \<Longrightarrow> mset (del_at i xs) = mset xs - {#xs ! i#}"
proof -
  assume "i < length xs"
  then have "mset xs = mset (take i xs @ xs ! i # drop (Suc i) xs)" by (simp add: id_take_nth_drop [symmetric])
  then show ?thesis by (simp add: del_at_def)
qed

lemma set_del_at: "i < length xs \<Longrightarrow> insert (xs ! i) (set (del_at i xs)) = set xs"
  by (metis del_at_def id_take_nth_drop list.simps(15) set_append Un_insert_right)

lemma loop_event_inv:
  assumes "loop_inv d0 l" "loop_event e l = Some l'"
  shows "loop_inv d0 l'"
proof (cases e)
  case (Arrive m path b)
  then show ?thesis using assms(1) assms(2) [symmetric]
    by (cases "app m path b") (simp_all add: loop_inv_def served_def Let_def Un_ac)
next
  case (Exec i)
  with assms(2) have i: "i < length (el_waiting l)" by (simp split: if_splits)
  obtain n c k where w: "el_waiting l ! i = (n, c, k)" by (metis prod_cases3)
  let ?f = "\<lambda>(n, c, k). (n, Await c k)"
  have mem: "(n, Await c k) \<in># mset (map ?f (el_waiting l))"
    using nth_mem [OF i] w by force
  have "mset (map ?f (el_waiting l)) = mset (map ?f (del_at i (el_waiting l))) + {#(n, Await c k)#}"
    using i w mem by (simp add: del_at_map mset_del_at insert_DiffM)
  obtain d' r where x: "exec_call c (el_db l) = (d', r)" by fastforce
  from assms(2) Exec i w x have "l' = l\<lparr>el_db := d', el_waiting := del_at i (el_waiting l),
      el_resolved := el_resolved l @ [(n, r, k)], el_trace := el_trace l @ [(n, Await c k)]\<rparr>"
    by simp
  with assms(1) x show ?thesis using \<open>mset (map ?f (el_waiting l)) = _\<close>
    by (simp add: loop_inv_def served_def run_step_Await Un_ac)
next
  case (Resume i)
  with assms(2) have i: "i < length (el_resolved l)" by (simp split: if_splits)
  obtain n r k where w: "el_resolved l ! i = (n, r, k)" by (metis prod_cases3)
  let ?g = "\<lambda>(n, r, k). (n, settle r k)"
  have g: "?g ` set (el_resolved l) = insert (n, settle r k) (?g ` set (del_at i (el_resolved l)))"
    using arg_cong [OF set_del_at [OF i], of "image ?g"] w by simp
  have memr: "n \<in># mset (map fst (el_resolved l))"
    using nth_mem [OF i] w by force
  have "mset (map fst (el_resolved l)) = add_mset n (mset (map fst (del_at i (el_resolved l))))"
    using i w memr by (simp add: del_at_map mset_del_at insert_DiffM)
  with assms(1) assms(2) [symmetric] Resume i w show ?thesis
    by (simp add: loop_inv_def served_def g)
qed

lemma loop_inv_init: "loop_inv d0 (loop_init d0)"
  by (simp add: loop_inv_def loop_init_def served_def)

lemma run_events_inv: "loop_inv d0 l \<Longrightarrow> run_events es l = Some l' \<Longrightarrow> loop_inv d0 l'"
  by (induction es arbitrary: l) (auto split: option.splits intro: loop_event_inv)

lemma run_events_append:
  "run_events (es @ es') l = (case run_events es l of None \<Rightarrow> None | Some l1 \<Rightarrow> run_events es' l1)"
  by (induction es arbitrary: l) (simp_all split: option.splits)

lemma reachable_inv: "run_events es (loop_init d0) = Some l \<Longrightarrow> loop_inv d0 l"
  by (rule run_events_inv [OF loop_inv_init])

subsection \<open>Progress and reachability\<close>

lemma drain_exec:
  "\<exists>l'. run_events (replicate (length (el_waiting l)) (Exec 0)) l = Some l' \<and>
     el_waiting l' = [] \<and> el_next l' = el_next l"
proof (induction "length (el_waiting l)" arbitrary: l)
  case 0
  then show ?case by simp
next
  case (Suc n)
  then obtain m c k ws where w: "el_waiting l = (m, c, k) # ws" by (metis length_Suc_conv prod_cases3)
  obtain d' r where x: "exec_call c (el_db l) = (d', r)" by fastforce
  let ?l1 = "l\<lparr>el_db := d', el_waiting := ws, el_resolved := el_resolved l @ [(m, r, k)],
               el_trace := el_trace l @ [(m, Await c k)]\<rparr>"
  have step: "loop_event (Exec 0) l = Some ?l1" using w x by (simp add: del_at_def)
  from Suc.hyps(2) w have "n = length (el_waiting ?l1)" by simp
  from Suc.hyps(1) [OF this] obtain l' where
    "run_events (replicate (length (el_waiting ?l1)) (Exec 0)) ?l1 = Some l'" "el_waiting l' = []"
    "el_next l' = el_next ?l1"
    by blast
  moreover have "replicate (length (el_waiting l)) (Exec 0) =
      Exec 0 # replicate (length (el_waiting ?l1)) (Exec 0)"
    using w by simp
  ultimately show ?case using step by (simp del: loop_event.simps)
qed

lemma drain_resume:
  "\<exists>l'. run_events (replicate (length (el_resolved l)) (Resume 0)) l = Some l' \<and>
     el_resolved l' = [] \<and> el_waiting l' = el_waiting l"
proof (induction "length (el_resolved l)" arbitrary: l)
  case 0
  then show ?case by simp
next
  case (Suc n)
  then obtain m r k rs where w: "el_resolved l = (m, r, k) # rs" by (metis length_Suc_conv prod_cases3)
  let ?l1 = "l\<lparr>el_resolved := rs, el_done := el_done l @ [(m, settle r k)]\<rparr>"
  have step: "loop_event (Resume 0) l = Some ?l1" using w by (simp add: del_at_def)
  from Suc.hyps(2) w have "n = length (el_resolved ?l1)" by simp
  from Suc.hyps(1) [OF this] obtain l' where
    "run_events (replicate (length (el_resolved ?l1)) (Resume 0)) ?l1 = Some l'" "el_resolved l' = []"
    "el_waiting l' = el_waiting ?l1"
    by blast
  moreover have "replicate (length (el_resolved l)) (Resume 0) =
      Resume 0 # replicate (length (el_resolved ?l1)) (Resume 0)"
    using w by simp
  ultimately show ?case using step by (simp del: loop_event.simps)
qed

lemma server_reach:
  "server_step\<^sup>*\<^sup>* Booting s \<Longrightarrow>
     s = Booting \<or> s = Exited 1 \<or> (\<exists>d0 es l. s = Listening l \<and> run_events es (loop_init d0) = Some l)"
proof (induction rule: rtranclp_induct)
  case base
  then show ?case by simp
next
  case (step s s')
  from step.hyps(2) step.IH show ?case
  proof cases
    case (open_ok d)
    then show ?thesis by (metis run_events.simps(1))
  next
    case open_fail
    then show ?thesis by simp
  next
    case (serve e l l')
    with step.IH obtain d0 es where "run_events es (loop_init d0) = Some l" by auto
    with serve have "run_events (es @ [e]) (loop_init d0) = Some l'" by (simp add: run_events_append)
    with serve show ?thesis by blast
  qed
qed

text \<open>The sample interleaving runs to an idle loop.\<close>

lemma put_get_schedule_quiescent:
  "\<exists>l. run_events put_get_schedule (loop_init sample_db) = Some l \<and> el_waiting l = [] \<and> el_resolved l = [] \<and>
     el_arrived l =
       [(0, put_player \<lparr>req_params = [(''playerId'', ''7'')], req_body = Obj [(''playerName'', Str ''Kohli'')]\<rparr>),
        (1, get_player \<lparr>req_params = [(''playerId'', ''7'')], req_body = Obj []\<rparr>)]"
  by (simp add: put_get_schedule_def loop_init_def route_defs path_segments_def put_player_def get_player_def
        del_at_def split_def Let_def)

text \<open>
  In the sample interleaving the GET, although it arrived after the PUT, answers
  what it answers on the database before the PUT, and the PUT's update is the
  final state: the driver's execution order, not the arrival order, decides.
\<close>

lemma put_get_schedule_stale_read:
  "\<exists>l. run_events put_get_schedule (loop_init sample_db) = Some l \<and>
     (1, snd (run_step (get_player \<lparr>req_params = [(''playerId'', ''7'')], req_body = Obj []\<rparr>) sample_db))
       \<in> set (el_done l) \<and>
     el_db l = fst (run_step (put_player \<lparr>req_params = [(''playerId'', ''7'')],
                 req_body = Obj [(''playerName'', Str ''Kohli'')]\<rparr>) sample_db)"
  by (simp add: put_get_schedule_def loop_init_def route_defs path_segments_def put_player_def get_player_def
        del_at_def split_def Let_def run_step_def settle_def)

lemma run_events_server:
  "run_events es l = Some l' \<Longrightarrow> server_step\<^sup>*\<^sup>* (Listening l) (Listening l')"
proof (induction es arbitrary: l)
  case Nil
  then show ?case by simp
next
  case (Cons e es)
  then obtain l1 where "loop_event e l = Some l1" "run_events es l1 = Some l'"
    by (auto split: option.splits)
  with Cons.IH show ?case by (meson converse_rtranclp_into_rtranclp serve)
qed

text \<open>A sequence of renames of one player, run one at a time, leaves the last name.\<close>

lemma run_put_name:
  "run_step (put_player \<lparr>req_params = [(''playerId'', s)], req_body = Obj [(''playerName'', Str nm)]\<rparr>) d =
     (update_player_name (SText nm) (SText s) d, Sent (RText ''Player Details Updated''))"
  by (simp add: run_put_player param_def)

lemma serial_puts:
  assumes "\<forall>a \<in> set ts. \<exists>nm. snd a = put_player \<lparr>req_params = [(''playerId'', s)], req_body = Obj [(''playerName'', Str nm)]\<rparr>"
    and "ts \<noteq> []"
    and "snd (last ts) = put_player \<lparr>req_params = [(''playerId'', s)], req_body = Obj [(''playerName'', Str nm)]\<rparr>"
  shows "fst (serial d ts) = update_player_name (SText nm) (SText s) d"
  using assms
proof (induction ts arbitrary: d)
  case Nil
  then show ?case by simp
next
  case (Cons a ts)
  obtain n st where a: "a = (n, st)" by fastforce
  from Cons.prems(1) a obtain nm' where
    st: "st = put_player \<lparr>req_params = [(''playerId'', s)], req_body = Obj [(''playerName'', Str nm')]\<rparr>" by auto
  show ?case
  proof (cases "ts = []")
    case True
    with Cons.prems(3) a show ?thesis by (simp add: run_put_name split_def Let_def)
  next
    case False
    with Cons.prems have "fst (serial (update_player_name (SText nm') (SText s) d) ts) =
        update_player_name (SText nm) (SText s) (update_player_name (SText nm') (SText s) d)"
      by (intro Cons.IH) auto
    with a st show ?thesis by (simp add: run_put_name split_def Let_def update_player_name_overwrite)
  qed
qed

lemma two_puts_schedule_run:
  "\<exists>l. run_events two_puts_schedule (loop_init sample_db) = Some l \<and> el_waiting l = [] \<and> el_resolved l = [] \<and>
     (\<forall>a \<in> set (el_arrived l). \<exists>nm. snd a =
        put_player \<lparr>req_params = [(''playerId'', ''7'')], req_body = Obj [(''playerName'', Str nm)]\<rparr>) \<and>
     el_trace l \<noteq> [] \<and>
     snd (last (el_trace l)) =
        put_player \<lparr>req_params = [(''playerId'', ''7'')], req_body = Obj [(''playerName'', Str ''Kohli'')]\<rparr>"
  by (simp add: two_puts_schedule_def loop_init_def route_defs path_segments_def put_player_def
        del_at_def split_def Let_def)

subsection \<open>Properties of the running service\<close>

text \<open>
  C2. Serializability of the event loop: in every interleaving of concurrent
  requests that the event loop and the driver allow, once no call is queued and no
  handler awaits resumption, the requests that arrived can be put in a sequence
  (the order in which their driver calls executed) such that running them one at a
  time in that sequence gives the same database and the same responses.
\<close>

theorem event_loop_serializable:
  assumes "run_events es (loop_init d0) = Some l" "el_waiting l = []" "el_resolved l = []"
  shows "mset (el_trace l) = mset (el_arrived l) \<and> fst (serial d0 (el_trace l)) = el_db l \<and>
         set (snd (serial d0 (el_trace l))) = set (el_done l)"
  using reachable_inv [OF assms(1)] assms(2,3) by (simp add: loop_inv_def served_def)

text \<open>
  No deadlock: from every state of the event loop there is a schedule of
  driver executions and resumptions after which no call is queued and no handler
  awaits resumption.
\<close>

lemma loop_drains: "\<exists>es l'. run_events es l = Some l' \<and> el_waiting l' = [] \<and> el_resolved l' = []"
proof -
  obtain l1 where l1: "run_events (replicate (length (el_waiting l)) (Exec 0)) l = Some l1"
    "el_waiting l1 = []" using drain_exec by blast
  obtain l2 where l2: "run_events (replicate (length (el_resolved l1)) (Resume 0)) l1 = Some l2"
    "el_resolved l2 = []" "el_waiting l2 = el_waiting l1" using drain_resume by blast
  from l1 l2 show ?thesis
    by (intro exI [of _ "replicate (length (el_waiting l)) (Exec 0) @ replicate (length (el_resolved l1)) (Resume 0)"])
       (simp add: run_events_append)
qed

text \<open>
  C6. Last write wins: when every request that arrived renames the same player
  and the loop is idle, the database is the initial one with only the rename
  whose statement the driver executed last applied, whatever the arrival order.
\<close>

theorem last_write_wins:
  assumes "run_events es (loop_init d0) = Some l" "el_waiting l = []" "el_resolved l = []"
    and "\<forall>a \<in> set (el_arrived l). \<exists>nm. snd a =
           put_player \<lparr>req_params = [(''playerId'', s)], req_body = Obj [(''playerName'', Str nm)]\<rparr>"
    and "el_trace l \<noteq> []"
    and "snd (last (el_trace l)) =
           put_player \<lparr>req_params = [(''playerId'', s)], req_body = Obj [(''playerName'', Str nm)]\<rparr>"
  shows "el_db l = update_player_name (SText nm) (SText s) d0"
proof -
  have inv: "loop_inv d0 l" by (rule reachable_inv [OF assms(1)])
  with assms(2) have "mset (el_trace l) = mset (el_arrived l)" by (simp add: loop_inv_def)
  then have "set (el_trace l) = set (el_arrived l)" by (rule mset_eq_setD)
  with assms(4) have "\<forall>a \<in> set (el_trace l). \<exists>nm. snd a =
      put_player \<lparr>req_params = [(''playerId'', s)], req_body = Obj [(''playerName'', Str nm)]\<rparr>" by simp
  from serial_puts [OF this assms(5,6)] inv show ?thesis by (simp add: loop_inv_def)
qed

text \<open>
  C13. A read concurrent with a write sees one of the two states: when a PUT
  renaming a player and a GET run concurrently (the loop idle afterwards), the GET
  answers what it answers on the database before the PUT, or what it answers on
  the database after it, whatever the interleaving.
\<close>

theorem concurrent_read:
  assumes "run_events es (loop_init d0) = Some l" "el_waiting l = []" "el_resolved l = []"
    and "mset (el_arrived l) =
      {#(i, put_player \<lparr>req_params = [(''playerId'', s)], req_body = Obj [(''playerName'', Str n)]\<rparr>),
        (j, get_player g)#}"
  shows "(j, snd (run_step (get_player g) d0)) \<in> set (el_done l) \<or>
         (j, snd (run_step (get_player g) (update_player_name (SText n) (SText s) d0))) \<in> set (el_done l)"
proof -
  have inv: "loop_inv d0 l" by (rule reachable_inv [OF assms(1)])
  with assms(2) have "mset (el_trace l) = mset (el_arrived l)" by (simp add: loop_inv_def)
  with assms(4) have tr: "el_trace l = [(i, put_player \<lparr>req_params = [(''playerId'', s)], req_body = Obj [(''playerName'', Str n)]\<rparr>), (j, get_player g)] \<or>
      el_trace l = [(j, get_player g), (i, put_player \<lparr>req_params = [(''playerId'', s)], req_body = Obj [(''playerName'', Str n)]\<rparr>)]"
    by (intro mset_eq_pair) simp
  from inv assms(3) have dn: "set (el_done l) = set (snd (serial d0 (el_trace l)))"
    by (simp add: loop_inv_def served_def)
  from tr show ?thesis
  proof
    assume "el_trace l = [(i, put_player \<lparr>req_params = [(''playerId'', s)], req_body = Obj [(''playerName'', Str n)]\<rparr>), (j, get_player g)]"
    with dn show ?thesis by (simp add: run_put_name split_def Let_def)
  next
    assume "el_trace l = [(j, get_player g), (i, put_player \<lparr>req_params = [(''playerId'', s)], req_body = Obj [(''playerName'', Str n)]\<rparr>)]"
    with dn show ?thesis by (simp add: split_def Let_def)
  qed
qed

subsection \<open>Witnesses\<close>

theorem event_loop_serializable_witness:
  "\<exists>l. run_events put_get_schedule (loop_init sample_db) = Some l \<and>
     el_waiting l = [] \<and> el_resolved l = [] \<and>
     mset (el_trace l) = mset (el_arrived l) \<and> fst (serial sample_db (el_trace l)) = el_db l \<and>
     set (snd (serial sample_db (el_trace l))) = set (el_done l)"
proof -
  obtain l where l: "run_events put_get_schedule (loop_init sample_db) = Some l"
    "el_waiting l = []" "el_resolved l = []"
    using put_get_schedule_quiescent by blast
  with event_loop_serializable [OF l] show ?thesis by blast
qed

theorem last_write_wins_witness:
  "\<exists>l. run_events two_puts_schedule (loop_init sample_db) = Some l \<and>
     el_db l = update_player_name (SText ''Kohli'') (SText ''7'') sample_db"
proof -
  obtain l where l: "run_events two_puts_schedule (loop_init sample_db) = Some l"
    "el_waiting l = []" "el_resolved l = []"
    "\<forall>a \<in> set (el_arrived l). \<exists>nm. snd a =
        put_player \<lparr>req_params = [(''playerId'', ''7'')], req_body = Obj [(''playerName'', Str nm)]\<rparr>"
    "el_trace l \<noteq> []"
    "snd (last (el_trace l)) =
        put_player \<lparr>req_params = [(''playerId'', ''7'')], req_body = Obj [(''playerName'', Str ''Kohli'')]\<rparr>"
    using two_puts_schedule_run by blast
  with last_write_wins [OF l] show ?thesis by blast
qed

theorem concurrent_read_witness:
  "\<exists>l. run_events put_get_schedule (loop_init sample_db) = Some l \<and>
     ((1, snd (run_step (get_player \<lparr>req_params = [(''playerId'', ''7'')], req_body = Obj []\<rparr>) sample_db))
        \<in> set (el_done l) \<or>
      (1, snd (run_step (get_player \<lparr>req_params = [(''playerId'', ''7'')], req_body = Obj []\<rparr>)
             (update_player_name (SText ''Kohli'') (SText ''7'') sample_db))) \<in> set (el_done l))"
proof -
  obtain l where l: "run_events put_get_schedule (loop_init sample_db) = Some l"
    "el_waiting l = []" "el_resolved l = []"
    "el_arrived l =
       [(0, put_player \<lparr>req_params = [(''playerId'', ''7'')], req_body = Obj [(''playerName'', Str ''Kohli'')]\<rparr>),
        (1, get_player \<lparr>req_params = [(''playerId'', ''7'')], req_body = Obj []\<rparr>)]"
    using put_get_schedule_quiescent by blast
  then have "mset (el_arrived l) =
      {#(0, put_player \<lparr>req_params = [(''playerId'', ''7'')], req_body = Obj [(''playerName'', Str ''Kohli'')]\<rparr>),
        (1, get_player \<lparr>req_params = [(''playerId'', ''7'')], req_body = Obj []\<rparr>)#}" by simp
  with concurrent_read [OF l(1-3) this] l(1) show ?thesis by blast
qed

end
