(* ===== verification/Api.thy ===== *)
theory Api
  imports Handlers
begin

text \<open>
  An abstract specification of the player API (API 2 and API 3) and its
  refinement by the handlers. The abstract state is the directory of players, a
  map from id to name; a GET reads an entry and a PUT overwrites the name of an
  existing entry. A PUT updates the entry that the driver's second bound
  parameter selects, with the first: for a name that is not an array or object,
  these are the name and the path segment. An array or object name supplies both
  parameters itself. A binding error leaves the directory unchanged and fails the
  request. A bound parameter selects the id that SQLite's numeric affinity reads
  from it (\<open>key_int\<close>).
\<close>

type_synonym directory = "int \<rightharpoonup> sqlval"

fun key_int :: "sqlval \<Rightarrow> int option" where
  "key_int SNull = None"
| "key_int (SInt n) = Some n"
| "key_int (SReal r) = Some r"
| "key_int (SText s) = numeric_affinity s"

definition directory :: "database \<Rightarrow> directory" where
  "directory db = map_of (map (\<lambda>p. (pd_player_id p, pd_player_name p)) (player_details db))"

datatype api_op = OpGet string | OpPut string jsval

datatype api_result = Found int sqlval | NotFound | Updated | Failed js_error

definition dir_step :: "api_op \<Rightarrow> directory \<Rightarrow> directory \<times> api_result" where
  "dir_step op m = (case op of
       OpGet s \<Rightarrow> (m, case key_int (SText s) of None \<Rightarrow> NotFound
                     | Some i \<Rightarrow> (case m i of None \<Rightarrow> NotFound | Some nm \<Rightarrow> Found i nm))
     | OpPut s nm \<Rightarrow>
         (case bind_args 2 [nm, Str s] of
            Inl e \<Rightarrow> (m, Failed e)
          | Inr ps \<Rightarrow> ((case key_int (ps ! 1) of None \<Rightarrow> m
                       | Some i \<Rightarrow> if i \<in> dom m then m(i \<mapsto> text_affinity (ps ! 0)) else m), Updated)))"

fun dir_run :: "api_op list \<Rightarrow> directory \<Rightarrow> directory \<times> api_result list" where
  "dir_run [] m = (m, [])"
| "dir_run (op # ops) m =
     (let (m1, r) = dir_step op m; (m2, rs) = dir_run ops m1 in (m2, r # rs))"

text \<open>The request each operation is, and the handler Express routes it to.\<close>

definition op_request :: "api_op \<Rightarrow> request" where
  "op_request op = (case op of
       OpGet s \<Rightarrow> \<lparr>req_params = [(''playerId'', s)], req_body = Obj []\<rparr>
     | OpPut s nm \<Rightarrow> \<lparr>req_params = [(''playerId'', s)], req_body = Obj [(''playerName'', nm)]\<rparr>)"

definition op_handler :: "api_op \<Rightarrow> step" where
  "op_handler op = (case op of OpGet s \<Rightarrow> get_player (op_request op) | OpPut s nm \<Rightarrow> put_player (op_request op))"

fun run_ops :: "api_op list \<Rightarrow> database \<Rightarrow> database \<times> outcome list" where
  "run_ops [] db = (db, [])"
| "run_ops (op # ops) db =
     (let (db1, out) = run_step (op_handler op) db; (db2, outs) = run_ops ops db1 in (db2, out # outs))"

text \<open>What the service sends for an abstract result.\<close>

definition render :: "api_result \<Rightarrow> outcome" where
  "render r = (case r of
       Found i nm \<Rightarrow> Sent (res_send (Obj [(''playerId'', Num (js_double i)), (''playerName'', sql_js nm)]))
     | NotFound \<Rightarrow> Rejected (TypeError (cannot_read ''undefined'' ''player_id''))
     | Updated \<Rightarrow> Sent (RText ''Player Details Updated'')
     | Failed e \<Rightarrow> Rejected e)"

lemma player_key_key_int: "player_key v p \<longleftrightarrow> key_int v = Some (pd_player_id p)"
  by (cases v) (auto simp: player_key_def)

lemma map_of_rename:
  "map_of (map (\<lambda>p. (pd_player_id p, pd_player_name p))
      (map (\<lambda>p. if P (pd_player_id p) then p\<lparr>pd_player_name := t\<rparr> else p) ps)) x =
   (if P x \<and> x \<in> pd_player_id ` set ps then Some t
    else map_of (map (\<lambda>p. (pd_player_id p, pd_player_name p)) ps) x)"
  by (induction ps) auto

lemma dom_directory: "dom (directory db) = pd_player_id ` set (player_details db)"
  by (simp add: directory_def dom_map_of_conv_image_fst image_image)

lemma directory_update:
  "directory (update_player_name n v db) =
     (case key_int v of None \<Rightarrow> directory db
      | Some i \<Rightarrow> if i \<in> dom (directory db) then (directory db)(i \<mapsto> text_affinity n) else directory db)"
proof (cases "key_int v")
  case None
  then have "update_player_name n v db = db"
    by (intro update_player_name_no_key) (simp add: player_key_key_int)
  with None show ?thesis by simp
next
  case (Some i)
  then have u: "player_details (update_player_name n v db) =
      map (\<lambda>p. if (\<lambda>j. j = i) (pd_player_id p) then p\<lparr>pd_player_name := text_affinity n\<rparr> else p)
        (player_details db)"
    by (auto simp: update_player_name_def player_key_key_int)
  show ?thesis
  proof (rule ext)
    fix x
    show "directory (update_player_name n v db) x =
      (case key_int v of None \<Rightarrow> directory db
       | Some i \<Rightarrow> if i \<in> dom (directory db) then (directory db)(i \<mapsto> text_affinity n) else directory db) x"
      using Some map_of_rename [of "\<lambda>j. j = i" "text_affinity n" "player_details db" x]
      by (simp add: directory_def u dom_directory [unfolded directory_def] del: map_map)
  qed
qed

lemma directory_Some:
  assumes "wf_db db" "directory db i = Some nm"
  shows "\<lparr>pd_player_id = i, pd_player_name = nm\<rparr> \<in> set (player_details db)"
proof -
  from assms(2) have "(i, nm) \<in> set (map (\<lambda>p. (pd_player_id p, pd_player_name p)) (player_details db))"
    unfolding directory_def by (rule map_of_SomeD)
  then obtain p where "p \<in> set (player_details db)" "pd_player_id p = i" "pd_player_name p = nm" by auto
  then show ?thesis by (metis (full_types) player_row.surjective old.unit.exhaust)
qed

lemma directory_None:
  "directory db i = None \<Longrightarrow> p \<in> set (player_details db) \<Longrightarrow> pd_player_id p \<noteq> i"
  using dom_directory [of db] by auto

lemma db_get_directory:
  assumes "wf_db db" "scalar a"
  shows "exec_call (DbGet (SelectPlayerById [a])) db =
    (db, Inr (case key_int (bind_value a) of None \<Rightarrow> Undef
              | Some i \<Rightarrow> (case directory db i of None \<Rightarrow> Undef
                           | Some nm \<Rightarrow> player_obj \<lparr>pd_player_id = i, pd_player_name = nm\<rparr>)))"
proof (cases "key_int (bind_value a)")
  case None
  have "exec_call (DbGet (SelectPlayerById [a])) db = (db, Inr Undef)"
    by (rule db_get_player_none [OF assms(2)]) (simp add: player_key_key_int None)
  with None show ?thesis by simp
next
  case (Some i)
  note k = this
  show ?thesis
  proof (cases "directory db i")
    case None
    have "exec_call (DbGet (SelectPlayerById [a])) db = (db, Inr Undef)"
      by (rule db_get_player_none [OF assms(2)])
         (auto simp: player_key_key_int k dest: directory_None [OF None])
    with k None show ?thesis by simp
  next
    case (Some nm)
    have "exec_call (DbGet (SelectPlayerById [a])) db =
        (db, Inr (player_obj \<lparr>pd_player_id = i, pd_player_name = nm\<rparr>))"
      by (rule db_get_player_row [OF assms(1) directory_Some [OF assms(1) Some] assms(2)])
         (simp add: player_key_key_int k)
    with k Some show ?thesis by simp
  qed
qed

lemma op_step_refines:
  assumes "wf_db db"
  shows "directory (fst (run_step (op_handler op) db)) = fst (dir_step op (directory db)) \<and>
         snd (run_step (op_handler op) db) = render (snd (dir_step op (directory db))) \<and>
         wf_db (fst (run_step (op_handler op) db))"
proof (cases op)
  case (OpGet s)
  with db_get_directory [OF assms, of "Str s"] assms show ?thesis
    by (auto simp: op_handler_def op_request_def get_player_def run_step_def param_def dir_step_def
        render_def player_response_def split: option.splits)
next
  case (OpPut s nm)
  have "run_step (op_handler op) db =
      (case bind_args 2 [nm, Str s] of
         Inl e \<Rightarrow> (db, Rejected e)
       | Inr ps \<Rightarrow> (update_player_name (ps ! 0) (ps ! 1) db, Sent (RText ''Player Details Updated'')))"
    using run_put_player_bind [of "op_request op" nm db] OpPut
    by (simp add: op_handler_def op_request_def param_def)
  with OpPut assms show ?thesis
    by (simp add: directory_update dir_step_def render_def update_player_name_wf split: option.splits sum.splits)
qed

text \<open>
  C9. Refinement of the player directory: on a well-formed database, every
  sequence of GET and PUT requests on players (API 2 and API 3), whatever their
  bodies, leaves the database whose directory the abstract sequence computes, and
  the responses are the rendering of the abstract results. A GET answers the
  entry of the id its path selects (a rejected TypeError when there is none). A
  PUT overwrites an existing entry only, the one its second bound parameter
  selects, with its first; a binding error changes nothing and rejects.
\<close>

theorem api_refinement:
  assumes "wf_db db"
  shows "directory (fst (run_ops ops db)) = fst (dir_run ops (directory db)) \<and>
         snd (run_ops ops db) = map render (snd (dir_run ops (directory db)))"
  using assms
proof (induction ops arbitrary: db)
  case Nil
  then show ?case by simp
next
  case (Cons op ops)
  from op_step_refines [OF Cons.prems] have
    "directory (fst (run_step (op_handler op) db)) = fst (dir_step op (directory db))"
    "snd (run_step (op_handler op) db) = render (snd (dir_step op (directory db)))"
    "wf_db (fst (run_step (op_handler op) db))" by blast+
  with Cons.IH [of "fst (run_step (op_handler op) db)"] show ?case
    by (simp add: split_def Let_def)
qed

theorem api_refinement_witness:
  "snd (run_ops [OpGet ''7'', OpPut ''07'' (Str ''Kohli''), OpGet '' 7'', OpGet ''9'', OpPut ''9'' (Str ''X''),
                 OpPut ''9'' (Arr [Str ''V'', Str ''1'']), OpGet ''1'',
                 OpPut ''1'' (Arr [Str ''a'', Str ''b'', Str ''c''])] sample_db) =
   map render [Found 7 (SText ''Virat''), Updated, Found 7 (SText ''Kohli''), NotFound, Updated,
               Updated, Found 1 (SText ''V''), Failed (SqliteError ''column index out of range'')]"
  using api_refinement [OF wf_sample_db, of "[OpGet ''7'', OpPut ''07'' (Str ''Kohli''), OpGet '' 7'',
      OpGet ''9'', OpPut ''9'' (Str ''X''), OpPut ''9'' (Arr [Str ''V'', Str ''1'']), OpGet ''1'',
      OpPut ''1'' (Arr [Str ''a'', Str ''b'', Str ''c''])]"]
  by (simp add: directory_def sample_db_def dir_step_def affinity_defs Let_def bind_positional_def range_error_def)

end
