(* ===== verification/Spec2Isabelle.thy ===== *)
theory Spec2Isabelle
  imports Server Api
begin

text \<open>
  A verification development of the cricket-statistics service in \<open>src/app.js\<close>
  (an Express application over the SQLite file \<open>cricketMatchDetails.db\<close> with
  seven endpoints, API 1 to API 7). Each part of the program is one theory. Prelude,
  Json, Sql, Convert and Handlers import one another in that order; Router and Api
  import Handlers; Server imports Router; this root imports Server and Api.

  \<^bold>\<open>Prelude\<close>: the error monad \<open>'e + 'a\<close> (\<open>sbind\<close>; \<open>mapM_sum\<close> is
  \<open>Array.prototype.map\<close> with a callback that may throw), the signed 64-bit
  range \<open>in_i64\<close> of SQLite integers and the 32-bit range \<open>in_i32\<close> of the
  driver's integer binding, and generic lemmas on nested-loop joins as
  multisets and on key columns.

  \<^bold>\<open>Json\<close>: JavaScript values \<open>jsval\<close> (undefined, null, booleans, numbers
  with integral values, strings, objects as association lists, arrays), property
  access \<open>js_get\<close> that throws V8's TypeError on undefined and null,
  \<open>JSON.stringify\<close> as \<open>to_json\<close> (undefined fields dropped), and
  \<open>res.send\<close> as \<open>res_send\<close> (a string is sent as text, anything else as JSON).

  \<^bold>\<open>Sql\<close>: the storage layer, the sqlite wrapper over node-sqlite3 and SQLite.
  The database is a record of the three tables (\<open>player_details\<close>,
  \<open>match_details\<close>, \<open>player_match_score\<close>) whose cells are SQLite values
  \<open>sqlval\<close>. A statement (\<open>stmt\<close>) carries the JavaScript arguments the
  handler passes after the SQL text, and \<open>run_stmt\<close> binds them first
  (\<open>bind_args\<close>, node-sqlite3's \<open>Statement::Bind\<close>):
  \<^item> an array as first argument supplies the parameters by position
    (\<open>bind_positional\<close>);
  \<^item> a plain object supplies them by key (\<open>bind_named\<close>: JavaScript key order,
    \<open>ToNumber\<close> of the key, the index cast to 16 bits);
  \<^item> otherwise the arguments are the parameters;
  \<^item> a value that lands past the statement's parameters fails with SQLITE_RANGE;
  \<^item> one value is bound by \<open>bind_value\<close>: a number as INTEGER when it is a
    32-bit integer, else as REAL.
  The comparison \<open>player_id = ?\<close> applies numeric affinity to a text
  parameter (\<open>numeric_affinity\<close>) and compares a REAL by value;
  \<open>SET player_name = ?\<close> applies TEXT affinity (\<open>text_affinity\<close>, with
  \<open>real_text\<close> for a REAL). Each SQL text of app.js is one function \<open>q_*\<close>, with
  the joins as nested loops in SQLite's loop order, and \<open>update_player_name\<close>.
  \<open>sum()\<close> is \<open>sql_sum\<close>: NULL on no rows and the error "integer overflow" when
  a running total leaves 64 bits. An aggregate without GROUP BY returns one row
  whose bare columns come from the last joined row (\<open>bare_columns\<close>). An
  INTEGER read back becomes a JavaScript double (\<open>js_double\<close>: nearest, ties
  to even). \<open>exec_call\<close> is \<open>db.get\<close>, \<open>db.all\<close> and \<open>db.run\<close>. The
  invariant \<open>wf_db\<close> (unique ids, every score row refers to an existing player
  and match) is what the schema's keys promise. The app never checks it.

  \<^bold>\<open>Convert\<close>: the three transformers \<open>convert*DbObjectToResponseObject\<close>
  (lines 31 to 55), as sequences of property reads that may throw.

  \<^bold>\<open>Handlers\<close>: the seven async handlers (lines 58 to 147). A handler is a
  \<open>step\<close>: \<open>Await c k\<close> is its code up to the single \<open>await\<close>, with the
  driver call \<open>c\<close> and the continuation \<open>k\<close> that transforms and sends, and
  \<open>Done\<close> covers a handler that throws before the await. \<open>run_step\<close> runs a
  handler to its outcome: a response (\<open>Sent\<close>) or a rejected promise
  (\<open>Rejected\<close>, which Express 4 does not catch, so no response is sent;
  the repository pins no Express version, and under Express 5 the default error
  handler would answer a rejection with status 500).

  \<^bold>\<open>Router\<close>: the route table \<open>routes\<close> in registration order, and Express's
  path matching: case-insensitive literals, one non-empty segment per parameter,
  an optional trailing slash, HEAD answered by GET routes, and 404
  "Cannot METHOD path" when nothing matches. \<open>app\<close> dispatches a request.

  \<^bold>\<open>Server\<close>: the bootstrap \<open>initializeDBAndServer\<close> (lines 13 to 28) as the
  inductive relation \<open>server_step\<close> (\<open>Booting\<close>, then \<open>Listening\<close> on the
  opened database or \<open>Exited 1\<close>). The event loop is \<open>evloop\<close> with explicit
  schedules: \<open>Arrive\<close> runs a request to its await and queues its driver call;
  \<open>Exec i\<close> runs the i-th queued call atomically, in any order, as the driver
  in parallel mode allows; \<open>Resume i\<close> runs the i-th settled continuation.
  \<open>serial\<close> is the sequential semantics.

  \<^bold>\<open>Api\<close>: an abstract specification of the player endpoints (API 2 and
  API 3). The state is the directory \<open>directory db\<close>, a map from player id to
  name. \<open>dir_step\<close> is a GET or PUT on that map, the PUT keyed by the
  parameters the driver binds, and \<open>run_ops\<close> runs a sequence of requests
  through the handlers. The refinement theorem relates the two.

  This theory composes dispatch with execution (\<open>serve\<close>) and states the
  properties that span layers.

  What the lemmas show.
  \<^item> Sql: the uniqueness of the row a key selects, the frame and invariant
    preservation of the update, the closed form of \<open>sum()\<close>, the exactness
    bound \<open>2^53\<close> of INTEGER reads, and the binding of scalar, array and object
    arguments.
  \<^item> Handlers: the functional behaviour of every handler on every branch:
    existing and missing rows, empty and overflowing sums, a body without
    playerName, and array or object names, which rename the player they select
    themselves or fail with SQLITE_RANGE.
  \<^item> Api: every sequence of player requests refines the directory
    specification.
  \<^item> Router: dispatch of every endpoint with and without trailing slash,
    disjointness of the routes, and 404 for other methods and for paths no
    pattern matches.
  \<^item> Server: preservation of \<open>loop_inv\<close> by every event, serializability,
    absence of deadlock (\<open>loop_drains\<close>), last write wins for concurrent renames
    (last in the driver's execution order), and a concurrent read seeing the state
    before or after a write.
  \<^item> Here: a PUT then GET over HTTP, and the coercion of non-string names by the
    binding and the TEXT column.
  The model uses no fuel. Every function is structurally recursive or terminates
  by its \<open>fun\<close> measure, and schedules are finite lists of events.

  Not modelled.
  \<^item> Percent-decoding of path parameters: the model agrees with Express on
    parameter segments without \<open>%\<close>.
  \<^item> express.json()'s rejection of malformed bodies: the body is taken as
    already parsed.
  \<^item> Fractional JavaScript numbers: a number is an integral double.
  \<^item> \<open>Number.prototype.toString\<close> of numbers of \<open>10^21\<close> and more, used
    when an array or object is bound as text.
  \<^item> Decimal keys of a bound object that round to an integer only as doubles.
  \<^item> SQLite's numeric forms with exponents and hexadecimal: numeric affinity
    is modelled for decimal integers with an optional zero fraction.
  \<^item> The text of a REAL of \<open>10^15\<close> and more follows the \<open>%!.15g\<close> rendering
    of \<open>vdbeMemRenderNum\<close>, as SQLite 3.43 and later round it.
  \<^item> HTTP status codes other than 404, and headers.
  Rows are modelled with the columns the queries read, and the schema is
  assumed. \<open>app.listen\<close> errors after start-up, and what Node does with an
  unhandled rejection, are out of scope: the outcome \<open>Rejected\<close> stops at the
  promise.
\<close>

definition serve :: "http_method \<Rightarrow> string \<Rightarrow> jsval \<Rightarrow> database \<Rightarrow> database \<times> outcome" where
  "serve m path body db = run_step (app m path body) db"

section \<open>Requests over HTTP\<close>

text \<open>
  C1. Over HTTP: a PUT of a string name to the path of an existing player
  answers "Player Details Updated", and a GET of the same player's path (with a
  trailing slash) then answers its id and the new name.
\<close>

theorem http_put_then_get:
  assumes "wf_db db" "p \<in> set (player_details db)" "player_key (SText s) p"
    and "s \<noteq> []" "CHR ''/'' \<notin> set s"
  shows "serve PUT (''/players/'' @ s) (Obj [(''playerName'', Str n)]) db =
           (update_player_name (SText n) (SText s) db, Sent (RText ''Player Details Updated'')) \<and>
         serve GET (''/players/'' @ s @ ''/'') (Obj []) (update_player_name (SText n) (SText s) db) =
           (update_player_name (SText n) (SText s) db,
            Sent (RJson (JObject [(''playerId'', JNumber (js_double (pd_player_id p))), (''playerName'', JString n)])))"
proof -
  have "run_step (put_player \<lparr>req_params = [(''playerId'', s)], req_body = Obj [(''playerName'', Str n)]\<rparr>) db =
          (update_player_name (SText n) (SText s) db, Sent (RText ''Player Details Updated''))"
    using run_put_player [of "\<lparr>req_params = [(''playerId'', s)], req_body = Obj [(''playerName'', Str n)]\<rparr>"]
    by (simp add: param_def)
  moreover have "exec_call (DbGet (SelectPlayerById [Str s])) (update_player_name (SText n) (SText s) db) =
      (update_player_name (SText n) (SText s) db, Inr (player_obj (p\<lparr>pd_player_name := SText n\<rparr>)))"
    using db_get_player_after_update [OF assms(1,2), of "Str s" "SText n"] assms(3) by simp
  ultimately show ?thesis
    using app_player_routes [OF assms(4,5)]
    by (simp add: serve_def get_player_def run_step_def param_def player_response_def)
qed

text \<open>A PUT and a GET of one player through dispatch and the handlers.\<close>

lemma serve_put_player:
  assumes "s \<noteq> []" "CHR ''/'' \<notin> set s" "scalar v"
  shows "serve PUT (''/players/'' @ s) (Obj [(''playerName'', v)]) db =
           (update_player_name (bind_value v) (SText s) db, Sent (RText ''Player Details Updated''))"
  using run_put_player [of "\<lparr>req_params = [(''playerId'', s)], req_body = Obj [(''playerName'', v)]\<rparr>" v db]
    app_player_routes(1) [OF assms(1,2)] assms(3)
  by (simp add: serve_def param_def)

lemma serve_get_player_updated:
  assumes "wf_db db" "p \<in> set (player_details db)" "player_key (SText s) p"
    and "s \<noteq> []" "CHR ''/'' \<notin> set s"
  shows "serve GET (''/players/'' @ s @ ''/'') (Obj []) (update_player_name n (SText s) db) =
           (update_player_name n (SText s) db,
            Sent (RJson (JObject [(''playerId'', JNumber (js_double (pd_player_id p))),
                                  (''playerName'', to_json (sql_js (text_affinity n)))])))"
  using db_get_player_after_update [OF assms(1,2), of "Str s" n] assms(3) app_player_routes(2) [OF assms(4,5)]
  by (simp add: serve_def get_player_def run_step_def player_response_def param_def)

text \<open>
  C11. What a PUT stores when playerName is not a string (nor an array or object),
  as a following GET reads it back: undefined and null clear the name (JSON null),
  a boolean is bound as the integer 1 or 0 and read back as the text "1" or "0",
  a 32-bit integer as its decimal text, and any other number, bound as a REAL, as
  SQLite's text of that REAL (3000000000 becomes "3000000000.0"): the TEXT column
  never returns a number or a boolean.
\<close>

theorem http_put_name_coercion:
  assumes "wf_db db" "p \<in> set (player_details db)" "player_key (SText s) p"
    and "s \<noteq> []" "CHR ''/'' \<notin> set s" "scalar v"
  shows "snd (serve GET (''/players/'' @ s @ ''/'') (Obj [])
            (fst (serve PUT (''/players/'' @ s) (Obj [(''playerName'', v)]) db))) =
         Sent (RJson (JObject [(''playerId'', JNumber (js_double (pd_player_id p))),
           (''playerName'', case v of
                Str t \<Rightarrow> JString t
              | Num k \<Rightarrow> JString (if in_i32 k then int_to_string k else real_text k)
              | Bool b \<Rightarrow> JString (if b then ''1'' else ''0'')
              | _ \<Rightarrow> JNull)]))"
  using serve_put_player [OF assms(4-6), of db] serve_get_player_updated [OF assms(1-5), of "bind_value v"] assms(6)
  by (cases v) (simp_all add: int_to_string_bits)

section \<open>Witnesses\<close>

theorem http_put_then_get_witness:
  "serve PUT ''/players/7'' (Obj [(''playerName'', Str ''Kohli'')]) sample_db =
     (update_player_name (SText ''Kohli'') (SText ''7'') sample_db, Sent (RText ''Player Details Updated'')) \<and>
   serve GET ''/players/7/'' (Obj []) (update_player_name (SText ''Kohli'') (SText ''7'') sample_db) =
     (update_player_name (SText ''Kohli'') (SText ''7'') sample_db,
      Sent (RJson (JObject [(''playerId'', JNumber 7), (''playerName'', JString ''Kohli'')])))"
proof -
  let ?p = "\<lparr>pd_player_id = 7, pd_player_name = SText ''Virat''\<rparr>"
  have "?p \<in> set (player_details sample_db)" by (simp add: sample_db_def)
  moreover have "player_key (SText ''7'') ?p" by (simp add: player_key_def affinity_defs)
  ultimately show ?thesis
    using http_put_then_get [OF wf_sample_db, of ?p "''7''" "''Kohli''"] by simp
qed

theorem http_put_name_coercion_witness:
  "snd (serve GET ''/players/7/'' (Obj [])
      (fst (serve PUT ''/players/7'' (Obj [(''playerName'', Num 3000000000)]) sample_db))) =
   Sent (RJson (JObject [(''playerId'', JNumber 7), (''playerName'', JString ''3000000000.0'')]))"
proof -
  let ?p = "\<lparr>pd_player_id = 7, pd_player_name = SText ''Virat''\<rparr>"
  have "?p \<in> set (player_details sample_db)" by (simp add: sample_db_def)
  moreover have "player_key (SText ''7'') ?p" by (simp add: player_key_def affinity_defs)
  moreover have "\<not> in_i32 3000000000" by (simp add: in_i32_def)
  moreover have "real_text 3000000000 = ''3000000000.0''"
    by (simp add: real_text_small int_to_string_def nat_to_string.simps)
  ultimately show ?thesis
    using http_put_name_coercion [OF wf_sample_db, of ?p "''7''" "Num 3000000000"] by simp
qed

end
